theory Spec2Isabelle
  imports Complex_Main
begin

section \<open>JavaScript values\<close>

text \<open>
  The client of \<^verbatim>\<open>src/lib/index.js\<close> handles JSON bodies, option objects and
  error objects. JavaScript values are embedded as a datatype. A number is a
  double in the source; the embedding keeps the three special values and
  idealises a finite double as an exact rational (no rounding), which is all
  the comparisons of the source (\<^verbatim>\<open>options.limit > 0\<close>) depend on.
\<close>

datatype number = NaN | NegInfinity | Finite rat | Infinity

datatype jsval =
    JUndefined
  | JNull
  | JBool bool
  | JNumber number
  | JString string
  | JArray "jsval list"
  | JObject "(string \<times> jsval) list"

text \<open>The relational operator \<^verbatim>\<open>a > b\<close> on numbers: false as soon as one side is NaN.\<close>

fun number_gt :: "number \<Rightarrow> number \<Rightarrow> bool" where
  "number_gt NaN _ = False"
| "number_gt _ NaN = False"
| "number_gt NegInfinity _ = False"
| "number_gt _ Infinity = False"
| "number_gt Infinity _ = True"
| "number_gt (Finite a) NegInfinity = True"
| "number_gt (Finite a) (Finite b) = (b < a)"

text \<open>\<^verbatim>\<open>a <= b\<close> on numbers (used to say "non-positive").\<close>

fun number_le :: "number \<Rightarrow> number \<Rightarrow> bool" where
  "number_le NaN _ = False"
| "number_le _ NaN = False"
| "number_le NegInfinity _ = True"
| "number_le _ Infinity = True"
| "number_le Infinity _ = False"
| "number_le (Finite a) NegInfinity = False"
| "number_le (Finite a) (Finite b) = (a \<le> b)"

text \<open>
  An optional numeric property of an options object: \<open>None\<close> is a property that
  is absent (\<^verbatim>\<open>undefined\<close>), and \<^verbatim>\<open>undefined > n\<close> is false.
\<close>

fun prop_gt :: "number option \<Rightarrow> number \<Rightarrow> bool" where
  "prop_gt None _ = False"
| "prop_gt (Some x) n = number_gt x n"

fun prop_val :: "number option \<Rightarrow> jsval" where
  "prop_val None = JUndefined"
| "prop_val (Some x) = JNumber x"

text \<open>Truthiness, as \<^verbatim>\<open>||\<close> and \<^verbatim>\<open>if\<close> test it.\<close>

fun truthy :: "jsval \<Rightarrow> bool" where
  "truthy JUndefined = False"
| "truthy JNull = False"
| "truthy (JBool b) = b"
| "truthy (JNumber NaN) = False"
| "truthy (JNumber (Finite q)) = (q \<noteq> 0)"
| "truthy (JNumber _) = True"
| "truthy (JString s) = (s \<noteq> [])"
| "truthy (JArray _) = True"
| "truthy (JObject _) = True"

text \<open>
  The errors that travel through the promises of the source: the error object
  axios rejects with (kept whole, so that "the original error" is an equality),
  an \<^verbatim>\<open>Error\<close> made by the source with its message, the \<^verbatim>\<open>TypeError\<close> the
  runtime throws on a property read of \<^verbatim>\<open>undefined\<close> or \<^verbatim>\<open>null\<close>, on a call of
  something that is not a function and on printing a value that cannot be
  converted, and the \<^verbatim>\<open>ERR_UNHANDLED_ERROR\<close> the emitter of the platform throws
  for an event named \<^verbatim>\<open>error\<close> that has no listener, with the payload it
  carries.
\<close>

record response_headers =
  set_cookie :: "string list option"
  other_headers :: "(string \<times> string) list"

record axios_response =
  res_status :: nat
  res_data :: jsval
  res_headers :: response_headers

record axios_error =
  err_code :: "string option"
  err_message :: string
  err_response :: "axios_response option"

datatype js_error =
    AxiosError axios_error
  | Error string
  | TypeError string
  | UnhandledError jsval

text \<open>
  The state of a promise once the run is over. \<open>Pending\<close>: it waits for a
  response that never arrives. \<open>Stuck e\<close>: the handler that had to settle it
  threw \<open>e\<close> instead, so the promise is never settled and \<open>e\<close> is an unhandled
  rejection.
\<close>

datatype 'a settle = Resolved 'a | Rejected js_error | Pending | Stuck js_error

text \<open>Reading an own data property, \<^verbatim>\<open>v.k\<close>: a throw on \<^verbatim>\<open>undefined\<close> and \<^verbatim>\<open>null\<close>,
  \<^verbatim>\<open>undefined\<close> where the property is absent. The source reads only \<^verbatim>\<open>meta\<close>,
  \<^verbatim>\<open>message\<close>, \<^verbatim>\<open>data\<close> and \<^verbatim>\<open>key\<close>, which no prototype of a primitive or of an
  array defines. The text of a \<^verbatim>\<open>TypeError\<close> names the read; its wording is the
  engine's.\<close>

fun get_prop :: "jsval \<Rightarrow> string \<Rightarrow> js_error + jsval" where
  "get_prop JUndefined k = Inl (TypeError (''Cannot read properties of undefined (reading '' @ k @ '')''))"
| "get_prop JNull k = Inl (TypeError (''Cannot read properties of null (reading '' @ k @ '')''))"
| "get_prop (JObject kvs) k = Inr (case map_of kvs k of None \<Rightarrow> JUndefined | Some v \<Rightarrow> v)"
| "get_prop _ k = Inr JUndefined"

section \<open>The client and its requests\<close>

text \<open>The WebSocket the listener opens: its address, its \<^verbatim>\<open>Cookie\<close> header and
  whether it has been closed.\<close>

record websocket =
  ws_address :: string
  ws_cookie :: string
  ws_closed :: bool

text \<open>The fields the constructor sets. \<^verbatim>\<open>_session\<close> and \<^verbatim>\<open>_csrfToken\<close> start as
  \<^verbatim>\<open>null\<close> (\<open>None\<close>); \<^verbatim>\<open>_authenticationInProgress\<close> is not set by the constructor
  and so starts falsy.\<close>

record client =
  baseURL :: string
  user :: jsval
  password :: jsval
  site :: string
  rejectUnauthorized :: jsval
  session :: "string option"
  csrfToken :: "string option"
  authenticationInProgress :: bool
  wss :: "websocket option"

record constructor_options =
  opt_baseURL :: string
  opt_user :: jsval
  opt_password :: jsval
  opt_site :: "string option"
  opt_rejectUnauthorized :: jsval

text \<open>\<^verbatim>\<open>x || d\<close> on an optional string: the empty string is falsy too.\<close>

fun or_default :: "string option \<Rightarrow> string \<Rightarrow> string" where
  "or_default None d = d"
| "or_default (Some s) d = (if s = [] then d else s)"

text \<open>The constructor (lines 20--34).\<close>

definition new_client :: "constructor_options \<Rightarrow> client" where
  "new_client options =
     \<lparr> baseURL = opt_baseURL options,
       user = opt_user options,
       password = opt_password options,
       site = or_default (opt_site options) ''default'',
       rejectUnauthorized = opt_rejectUnauthorized options,
       session = None,
       csrfToken = None,
       authenticationInProgress = False,
       wss = None \<rparr>"

text \<open>The \<^verbatim>\<open>options\<close> object a caller of \<^verbatim>\<open>_apiRequest\<close> passes, and the body. A
  body is either a value handed to axios as it is, or the text
  \<^verbatim>\<open>JSON.stringify\<close> makes of a value (the serialiser is the platform's and is
  kept symbolic).\<close>

record api_options =
  o_method :: "string option"
  o_path :: "string option"

datatype body = Raw jsval | Stringified jsval

text \<open>What \<^verbatim>\<open>axios(options)\<close> is called with.\<close>

record request =
  req_method :: string
  req_baseURL :: string
  req_url :: string
  req_data :: body
  req_headers :: "(string \<times> string option) list"
  req_rejectUnauthorized :: jsval

text \<open>What \<^verbatim>\<open>_apiRequest\<close> resolves with: \<^verbatim>\<open>{ data, headers }\<close>.\<close>

record api_response =
  data :: jsval
  headers :: response_headers

datatype axios_result = Response axios_response | Failure axios_error

text \<open>\<^verbatim>\<open>if (self._session)\<close>: \<^verbatim>\<open>null\<close> and the empty string are falsy.\<close>

fun session_present :: "string option \<Rightarrow> bool" where
  "session_present None = False"
| "session_present (Some s) = (s \<noteq> [])"

definition credential_headers :: "client \<Rightarrow> (string \<times> string option) list" where
  "credential_headers c =
     (case session c of
        None \<Rightarrow> []
      | Some s \<Rightarrow>
          if session_present (Some s)
          then [(''cookie'', Some (''unifises='' @ s @ '';'')), (''x-csrf-token'', csrfToken c)]
          else [])"

definition request_headers :: "client \<Rightarrow> (string \<times> string option) list" where
  "request_headers c =
     [(''Content-Type'', Some ''application/json''),
      (''Accept'', Some ''application/json'')] @ credential_headers c"

text \<open>\<^verbatim>\<open>options.method = options.method || 'GET'\<close>: the object is updated in place,
  and the same object is passed to the re-send.\<close>

definition set_method :: "api_options \<Rightarrow> api_options" where
  "set_method options = options\<lparr> o_method := Some (or_default (o_method options) ''GET'') \<rparr>"

definition build_request :: "client \<Rightarrow> api_options \<Rightarrow> body \<Rightarrow> request" where
  "build_request c options b =
     \<lparr> req_method = or_default (o_method options) ''GET'',
       req_baseURL = baseURL c @ ''/api'',
       req_url = or_default (o_path options) ''/'',
       req_data = b,
       req_headers = request_headers c,
       req_rejectUnauthorized = rejectUnauthorized c \<rparr>"

section \<open>The authentication sub-protocol and the request executor\<close>

text \<open>\<^verbatim>\<open>cookie.split(';')\<close>: the pieces between the separators, one piece for a
  string without separator (also the empty string).\<close>

fun split :: "char \<Rightarrow> string \<Rightarrow> string list" where
  "split sep [] = [[]]"
| "split sep (x # xs) =
     (if x = sep then [] # split sep xs
      else (case split sep xs of
              [] \<Rightarrow> [[x]]
            | p # ps \<Rightarrow> (x # p) # ps))"

text \<open>\<^verbatim>\<open>/^unifises=/.test(attr)\<close>: the attribute starts with the text.\<close>

definition starts_with :: "string \<Rightarrow> string \<Rightarrow> bool" where
  "starts_with p s = (take (length p) s = p)"

text \<open>The group of \<^verbatim>\<open>/^unifises=(.*)/\<close>: what follows the prefix, up to the first
  line terminator (\<^verbatim>\<open>.\<close> does not match one). Of the four line terminators of
  the language, line feed and carriage return are characters of this
  embedding; U+2028 and U+2029 are outside of its 8-bit characters.\<close>

definition line_terminator :: "char \<Rightarrow> bool" where
  "line_terminator ch = (ch = CHR 0x0A \<or> ch = CHR 0x0D)"

definition capture_after :: "string \<Rightarrow> string \<Rightarrow> string" where
  "capture_after p s = takeWhile (\<lambda>ch. \<not> line_terminator ch) (drop (length p) s)"

text \<open>The \<^verbatim>\<open>switch (true)\<close> over one attribute of a cookie.\<close>

definition store_attr :: "client \<Rightarrow> string \<Rightarrow> client" where
  "store_attr c attr =
     (if starts_with ''unifises='' attr
      then c\<lparr> session := Some (capture_after ''unifises='' attr) \<rparr>
      else if starts_with ''csrf_token='' attr
      then c\<lparr> csrfToken := Some (capture_after ''csrf_token='' attr) \<rparr>
      else c)"

definition store_cookie :: "client \<Rightarrow> string \<Rightarrow> client" where
  "store_cookie c cookie = foldl store_attr c (split CHR '';'' cookie)"

text \<open>The \<^verbatim>\<open>.then\<close> handler of \<^verbatim>\<open>_authenticate\<close>: clear the flag, then read the
  cookies of the login response.\<close>

definition authenticate_then :: "client \<Rightarrow> api_response \<Rightarrow> client" where
  "authenticate_then c response =
     (let c1 = c\<lparr> authenticationInProgress := False \<rparr>
      in case set_cookie (headers response) of
           None \<Rightarrow> c1
         | Some cookies \<Rightarrow> foldl store_cookie c1 cookies)"

text \<open>The \<^verbatim>\<open>.catch\<close> handler of \<^verbatim>\<open>_authenticate\<close>.\<close>

definition authenticate_catch :: "client \<Rightarrow> client" where
  "authenticate_catch c = c\<lparr> authenticationInProgress := False \<rparr>"

definition login_options :: api_options where
  "login_options = \<lparr> o_method = Some ''POST'', o_path = Some ''/login'' \<rparr>"

definition login_body :: "client \<Rightarrow> body" where
  "login_body c =
     Stringified (JObject [(''username'', user c), (''password'', password c),
                           (''remember'', JBool True)])"

text \<open>
  A run of the executor: the state of the promise it returned, the client
  afterwards, and the requests handed to axios, in order.
\<close>

record 'a run =
  outcome :: "'a settle"
  client_after :: client
  sent :: "request list"

text \<open>
  \<^verbatim>\<open>_apiRequest\<close> (lines 43--103) and \<^verbatim>\<open>_authenticate\<close> (lines 108--153). The network is the list of the results
  axios gives, one for each request in the order the requests are sent; a
  request sent when the list is used up is never answered. Each request uses up
  one result, so the results left after a run are those after the first
  \<open>length (sent r)\<close>.

  \<^item> A response resolves the promise with \<^verbatim>\<open>{ data, headers }\<close>.
  \<^item> A failure with the code \<^verbatim>\<open>DEPTH_ZERO_SELF_SIGNED_CERT\<close> rejects with a new
    \<^verbatim>\<open>Error\<close>.
  \<^item> Otherwise, with the flag clear, the handler reads \<^verbatim>\<open>error.response.status\<close>.
    Without a response the read throws inside the \<^verbatim>\<open>async\<close> handler of \<^verbatim>\<open>.catch\<close>,
    so neither \<^verbatim>\<open>resolve\<close> nor \<^verbatim>\<open>reject\<close> is called. With the status 401 the
    handler awaits \<^verbatim>\<open>_authenticate\<close>, rejects with its error when it fails, and
    when it succeeds calls \<^verbatim>\<open>_apiRequest\<close> again with the same options and body
    and passes its outcome on.
  \<^item> In every other case the promise is rejected with the error of axios.

  \<^verbatim>\<open>_authenticate\<close> sets the flag (without reading it), sends the login through
  \<^verbatim>\<open>_apiRequest\<close> and clears the flag in both handlers. Both functions are total:
  each call of \<^verbatim>\<open>_apiRequest\<close> uses up a result before it calls again.
\<close>

function (sequential)
  api_request :: "client \<Rightarrow> api_options \<Rightarrow> body \<Rightarrow> axios_result list \<Rightarrow> api_response run"
  and authenticate :: "client \<Rightarrow> axios_result list \<Rightarrow> unit run"
where
  "api_request c options b [] =
     \<lparr> outcome = Pending, client_after = c, sent = [build_request c options b] \<rparr>"
| "api_request c options b (Response response # rest) =
     \<lparr> outcome = Resolved \<lparr> data = res_data response, headers = res_headers response \<rparr>,
       client_after = c, sent = [build_request c options b] \<rparr>"
| "api_request c options b (Failure error # rest) =
     (if err_code error = Some ''DEPTH_ZERO_SELF_SIGNED_CERT''
      then \<lparr> outcome = Rejected (Error ''Self signed certificate''),
             client_after = c, sent = [build_request c options b] \<rparr>
      else if \<not> authenticationInProgress c
      then (case err_response error of
              None \<Rightarrow>
                \<lparr> outcome = Stuck (TypeError ''Cannot read properties of undefined (reading status)''),
                  client_after = c, sent = [build_request c options b] \<rparr>
            | Some r \<Rightarrow>
                if res_status r = 401
                then (let a = authenticate c rest
                      in case outcome a of
                           Resolved u \<Rightarrow>
                             (let again = api_request (client_after a) (set_method options) b
                                            (drop (length (sent a)) rest)
                              in again\<lparr> sent := build_request c options b # sent a @ sent again \<rparr>)
                         | Rejected err \<Rightarrow>
                             \<lparr> outcome = Rejected err, client_after = client_after a,
                               sent = build_request c options b # sent a \<rparr>
                         | Pending \<Rightarrow>
                             \<lparr> outcome = Pending, client_after = client_after a,
                               sent = build_request c options b # sent a \<rparr>
                         | Stuck err \<Rightarrow>
                             \<lparr> outcome = Stuck err, client_after = client_after a,
                               sent = build_request c options b # sent a \<rparr>)
                else \<lparr> outcome = Rejected (AxiosError error),
                       client_after = c, sent = [build_request c options b] \<rparr>)
      else \<lparr> outcome = Rejected (AxiosError error),
             client_after = c, sent = [build_request c options b] \<rparr>)"
| "authenticate c net =
     (let login = api_request (c\<lparr> authenticationInProgress := True \<rparr>)
                    login_options (login_body c) net
      in case outcome login of
           Resolved response \<Rightarrow>
             \<lparr> outcome = Resolved (),
               client_after = authenticate_then (client_after login) response,
               sent = sent login \<rparr>
         | Rejected err \<Rightarrow>
             \<lparr> outcome = Rejected err,
               client_after = authenticate_catch (client_after login),
               sent = sent login \<rparr>
         | Pending \<Rightarrow>
             \<lparr> outcome = Pending, client_after = client_after login, sent = sent login \<rparr>
         | Stuck err \<Rightarrow>
             \<lparr> outcome = Stuck err, client_after = client_after login, sent = sent login \<rparr>)"
  by pat_completeness auto
termination
  by (relation "measure (\<lambda>x. case x of
                   Inl (c, options, b, net) \<Rightarrow> 2 * length net
                 | Inr (c, net) \<Rightarrow> 2 * length net + 1)") auto

section \<open>The query operations\<close>

text \<open>What an operation resolves with: a value read from the response body, or
  the whole \<^verbatim>\<open>{ data, headers }\<close> object of the executor.\<close>

datatype op_value = Inner jsval | Whole api_response

text \<open>\<^verbatim>\<open>.then(response => resolve(response.data.data)).catch(error => reject(error))\<close>:
  a throw of the \<^verbatim>\<open>.then\<close> handler reaches \<^verbatim>\<open>.catch\<close> and rejects.\<close>

definition then_data_data :: "api_response run \<Rightarrow> op_value run" where
  "then_data_data r =
     \<lparr> outcome =
         (case outcome r of
            Resolved response \<Rightarrow>
              (case get_prop (data response) ''data'' of
                 Inl e \<Rightarrow> Rejected e
               | Inr v \<Rightarrow> Resolved (Inner v))
          | Rejected error \<Rightarrow> Rejected error
          | Pending \<Rightarrow> Pending
          | Stuck error \<Rightarrow> Stuck error),
       client_after = client_after r,
       sent = sent r \<rparr>"

text \<open>\<^verbatim>\<open>.then(response => resolve(response)).catch(error => reject(error))\<close>.\<close>

definition then_response :: "api_response run \<Rightarrow> op_value run" where
  "then_response r =
     \<lparr> outcome =
         (case outcome r of
            Resolved response \<Rightarrow> Resolved (Whole response)
          | Rejected error \<Rightarrow> Rejected error
          | Pending \<Rightarrow> Pending
          | Stuck error \<Rightarrow> Stuck error),
       client_after = client_after r,
       sent = sent r \<rparr>"

text \<open>The filter options of a caller (each may be absent) and the first
  argument of \<^verbatim>\<open>getAlarms\<close>, \<^verbatim>\<open>getEvents\<close> and \<^verbatim>\<open>getRogueAP\<close>: left out, a site name
  (a string), or an options object.\<close>

record filter_options =
  start :: "number option"
  limit :: "number option"
  archived :: jsval
  period :: "number option"

datatype options_arg = NoOptions | SiteName string | Options filter_options

definition no_filter_options :: filter_options where
  "no_filter_options = \<lparr> start = None, limit = None, archived = JUndefined, period = None \<rparr>"

text \<open>\<^verbatim>\<open>if (typeof options === 'string') { site = options; options = {} }\<close>, after
  the defaults \<^verbatim>\<open>options = {}\<close> and \<^verbatim>\<open>site = 'default'\<close>.\<close>

fun site_of :: "options_arg \<Rightarrow> string option \<Rightarrow> string" where
  "site_of (SiteName s) _ = s"
| "site_of _ None = ''default''"
| "site_of _ (Some s) = s"

fun options_of :: "options_arg \<Rightarrow> filter_options" where
  "options_of (Options f) = f"
| "options_of _ = no_filter_options"

fun site_default :: "string option \<Rightarrow> string" where
  "site_default None = ''default''"
| "site_default (Some s) = s"

definition post :: "string \<Rightarrow> api_options" where
  "post p = \<lparr> o_method = Some ''POST'', o_path = Some p \<rparr>"

definition get :: "string \<Rightarrow> api_options" where
  "get p = \<lparr> o_method = Some ''GET'', o_path = Some p \<rparr>"

text \<open>\<^verbatim>\<open>getAlarms\<close> (lines 164--189), \<^verbatim>\<open>getEvents\<close> (lines 274--299) and \<^verbatim>\<open>getRogueAP\<close>
  (lines 330--354) hand the filter object to the executor as it is.\<close>

definition getAlarms ::
  "client \<Rightarrow> options_arg \<Rightarrow> string option \<Rightarrow> axios_result list \<Rightarrow> op_value run" where
  "getAlarms c options site_arg net =
     (let s = site_of options site_arg;
          opts = options_of options;
          filter = JObject
            [(''_start'', if prop_gt (start opts) (Finite 0) then prop_val (start opts)
                          else JNumber (Finite 0)),
             (''_limit'', if prop_gt (limit opts) (Finite 0) then prop_val (limit opts)
                          else JNumber (Finite 100)),
             (''archived'', if truthy (archived opts) then archived opts else JBool False)]
      in then_data_data (api_request c (post (''/s/'' @ s @ ''/stat/alarm'')) (Raw filter) net))"

definition getEvents ::
  "client \<Rightarrow> options_arg \<Rightarrow> string option \<Rightarrow> axios_result list \<Rightarrow> op_value run" where
  "getEvents c options site_arg net =
     (let s = site_of options site_arg;
          opts = options_of options;
          filter = JObject
            [(''_start'', if prop_gt (start opts) (Finite 0) then prop_val (start opts)
                          else JNumber (Finite 0)),
             (''_limit'', if prop_gt (limit opts) (Finite 0) then prop_val (limit opts)
                          else JNumber (Finite 100)),
             (''within'', if prop_gt (period opts) (Finite 1) then prop_val (period opts)
                          else JNumber (Finite 1))]
      in then_data_data (api_request c (post (''/s/'' @ s @ ''/stat/event'')) (Raw filter) net))"

definition getRogueAP ::
  "client \<Rightarrow> options_arg \<Rightarrow> string option \<Rightarrow> axios_result list \<Rightarrow> op_value run" where
  "getRogueAP c options site_arg net =
     (let s = site_of options site_arg;
          opts = options_of options;
          filter = JObject
            [(''_limit'', if prop_gt (limit opts) (Finite 0) then prop_val (limit opts)
                          else JNumber (Finite 100)),
             (''within'', if prop_gt (period opts) (Finite 1) then prop_val (period opts)
                          else JNumber (Finite 1))]
      in then_data_data (api_request c (post (''/s/'' @ s @ ''/stat/rogueap'')) (Raw filter) net))"

text \<open>\<^verbatim>\<open>getHealth\<close> (lines 306--320), \<^verbatim>\<open>getRoutes\<close> (lines 361--375),
  \<^verbatim>\<open>getSystemInfo\<close> (lines 401--415) and \<^verbatim>\<open>getSites\<close> (lines 381--395) call the
  executor without body, so with its default, the empty string.\<close>

definition getHealth :: "client \<Rightarrow> string option \<Rightarrow> axios_result list \<Rightarrow> op_value run" where
  "getHealth c site_arg net =
     then_data_data
       (api_request c (get (''/s/'' @ site_default site_arg @ ''/stat/health'')) (Raw (JString [])) net)"

definition getRoutes :: "client \<Rightarrow> string option \<Rightarrow> axios_result list \<Rightarrow> op_value run" where
  "getRoutes c site_arg net =
     then_data_data
       (api_request c (get (''/s/'' @ site_default site_arg @ ''/stat/routing'')) (Raw (JString [])) net)"

definition getSystemInfo :: "client \<Rightarrow> string option \<Rightarrow> axios_result list \<Rightarrow> op_value run" where
  "getSystemInfo c site_arg net =
     then_data_data
       (api_request c (get (''/s/'' @ site_default site_arg @ ''/stat/sysinfo'')) (Raw (JString [])) net)"

definition getSites :: "client \<Rightarrow> axios_result list \<Rightarrow> op_value run" where
  "getSites c net = then_response (api_request c (get ''/stat/sites'') (Raw (JString [])) net)"

subsection \<open>The mac-address filter\<close>

definition hex_digit :: "char \<Rightarrow> bool" where
  "hex_digit ch = (ch \<in> set ''0123456789ABCDEFabcdef'')"

text \<open>\<^verbatim>\<open>([0-9A-Fa-f]{2}[:-]){n}\<close> at the start of a string.\<close>

fun mac_groups :: "nat \<Rightarrow> string \<Rightarrow> bool" where
  "mac_groups 0 s = True"
| "mac_groups (Suc n) (a # b # sep # rest) =
     (hex_digit a \<and> hex_digit b \<and> (sep = CHR '':'' \<or> sep = CHR ''-'') \<and> mac_groups n rest)"
| "mac_groups (Suc n) _ = False"

text \<open>\<^verbatim>\<open>s.match(/([0-9A-Fa-f]{2}[:-]){5}/)\<close>: the expression is not anchored, so it
  is searched for at every position of the string.\<close>

fun mac_match :: "string \<Rightarrow> bool" where
  "mac_match [] = mac_groups 5 []"
| "mac_match (x # xs) = (mac_groups 5 (x # xs) \<or> mac_match xs)"

text \<open>The loop over \<^verbatim>\<open>macs\<close>: the error of the first entry that fails, if any. An
  entry that is not a string has no \<^verbatim>\<open>match\<close> method, and the call throws.\<close>

fun check_macs :: "jsval list \<Rightarrow> js_error option" where
  "check_macs [] = None"
| "check_macs (JString s # ms) =
     (if \<not> mac_match s then Some (Error ''Invalid mac address specified'') else check_macs ms)"
| "check_macs (JUndefined # ms) =
     Some (TypeError ''Cannot read properties of undefined (reading match)'')"
| "check_macs (JNull # ms) =
     Some (TypeError ''Cannot read properties of null (reading match)'')"
| "check_macs (m # ms) = Some (TypeError ''macs[i].match is not a function'')"

text \<open>The filter after the default \<^verbatim>\<open>macs = []\<close> and
  \<^verbatim>\<open>if (typeof macs === 'string') { macs = [macs] }\<close>.\<close>

fun macs_of :: "jsval \<Rightarrow> jsval" where
  "macs_of JUndefined = JArray []"
| "macs_of (JString s) = JArray [JString s]"
| "macs_of v = v"

text \<open>\<^verbatim>\<open>getClients\<close> (lines 197--226) and \<^verbatim>\<open>getDevices\<close> (lines 234--263) differ in
  the endpoint only. A throw in the executor function of the promise rejects
  the promise.\<close>

definition mac_query ::
  "string \<Rightarrow> client \<Rightarrow> jsval \<Rightarrow> string option \<Rightarrow> axios_result list \<Rightarrow> op_value run" where
  "mac_query endpoint c macs site_arg net =
     (case macs_of macs of
        JArray ms \<Rightarrow>
          (case check_macs ms of
             Some e \<Rightarrow> \<lparr> outcome = Rejected e, client_after = c, sent = [] \<rparr>
           | None \<Rightarrow>
               then_data_data
                 (api_request c (post (''/s/'' @ site_default site_arg @ endpoint))
                    (Stringified (JObject [(''macs'', JArray ms)])) net))
      | _ \<Rightarrow>
          \<lparr> outcome = Rejected (Error
              ''Filter must be a single mac address or an array of multiple mac addresses''),
            client_after = c, sent = [] \<rparr>)"

definition getClients ::
  "client \<Rightarrow> jsval \<Rightarrow> string option \<Rightarrow> axios_result list \<Rightarrow> op_value run" where
  "getClients = mac_query ''/stat/sta''"

definition getDevices ::
  "client \<Rightarrow> jsval \<Rightarrow> string option \<Rightarrow> axios_result list \<Rightarrow> op_value run" where
  "getDevices = mac_query ''/stat/device''"

section \<open>The event stream listener\<close>

text \<open>\<^verbatim>\<open>baseURL.replace(/^http?:/, 'wss')\<close>: the expression matches \<^verbatim>\<open>http:\<close> or
  \<^verbatim>\<open>htt:\<close> at the start, and the match is replaced by \<^verbatim>\<open>wss\<close>.\<close>

definition replace_scheme :: "string \<Rightarrow> string" where
  "replace_scheme s =
     (if starts_with ''http:'' s then ''wss'' @ drop 5 s
      else if starts_with ''htt:'' s then ''wss'' @ drop 4 s
      else s)"

text \<open>\<^verbatim>\<open>${self._session}\<close> in a template: \<^verbatim>\<open>null\<close> prints as the text \<^verbatim>\<open>null\<close>.\<close>

fun session_text :: "string option \<Rightarrow> string" where
  "session_text None = ''null''"
| "session_text (Some s) = s"

text \<open>
  \<^verbatim>\<open>startWebsocketListener\<close> (lines 420--499) up to the creation of the socket;
  whether the socket library accepts the address is the library's. It authenticates
  when \<^verbatim>\<open>_session\<close> is falsy, whatever \<^verbatim>\<open>_authenticationInProgress\<close> is. Its
  promise is resolved later, by the \<^verbatim>\<open>open\<close> handler of the socket, so a run that
  creates the socket ends \<open>Pending\<close>.
\<close>

definition open_socket :: "client \<Rightarrow> client" where
  "open_socket c =
     c\<lparr> wss := Some \<lparr> ws_address = replace_scheme (baseURL c) @ ''/wss/s/'' @ site c @ ''/events'',
                      ws_cookie = ''unifises='' @ session_text (session c) @ '';'',
                      ws_closed = False \<rparr> \<rparr>"

definition startWebsocketListener :: "client \<Rightarrow> axios_result list \<Rightarrow> unit run" where
  "startWebsocketListener c net =
     (if \<not> session_present (session c)
      then (let a = authenticate c net
            in case outcome a of
                 Resolved u \<Rightarrow>
                   \<lparr> outcome = Pending, client_after = open_socket (client_after a),
                     sent = sent a \<rparr>
               | Rejected error \<Rightarrow>
                   \<lparr> outcome = Rejected error, client_after = client_after a, sent = sent a \<rparr>
               | Pending \<Rightarrow>
                   \<lparr> outcome = Pending, client_after = client_after a, sent = sent a \<rparr>
               | Stuck error \<Rightarrow>
                   \<lparr> outcome = Stuck error, client_after = client_after a, sent = sent a \<rparr>)
      else \<lparr> outcome = Pending, client_after = open_socket c, sent = [] \<rparr>)"

text \<open>
  The client extends the \<^verbatim>\<open>EventEmitter\<close> of the platform, so what
  \<^verbatim>\<open>self.emit(name, payload)\<close> does is decided by that class and by the listeners
  the subscribers have registered: the call returns, or it throws, and the
  listeners it runs may change their own state and the client. The call is a
  parameter of the handler: from the state of the subscribers and the client,
  the name and the payload it gives the error thrown (if the call throws) and
  both states afterwards. An event name is any value (\<^verbatim>\<open>event.key\<close> may be
  absent).
\<close>

type_synonym 'e emitter =
  "'e \<Rightarrow> client \<Rightarrow> jsval \<Rightarrow> jsval \<Rightarrow> js_error option \<times> 'e \<times> client"

text \<open>
  Whether printing a value in a template literal (\<^verbatim>\<open>`... ${event.key}`\<close>) throws.
  An object with an own property \<^verbatim>\<open>toString\<close> (never a function in a value that
  was read from JSON) cannot be converted: \<^verbatim>\<open>toString\<close> is not callable and
  \<^verbatim>\<open>valueOf\<close> gives no primitive. An array prints its elements, \<^verbatim>\<open>null\<close> and
  \<^verbatim>\<open>undefined\<close> as nothing, so it throws when one of its elements does. Every
  other value prints.
\<close>

fun to_string_throws :: "jsval \<Rightarrow> bool" where
  "to_string_throws (JObject kvs) = (map_of kvs ''toString'' \<noteq> None)"
| "to_string_throws (JArray vs) = (\<exists>v\<in>set vs. to_string_throws v)"
| "to_string_throws _ = False"

text \<open>
  A run of the \<^verbatim>\<open>message\<close> handler: the calls of \<^verbatim>\<open>self.emit(name, payload)\<close> it
  made, in order (a call that threw is the last of them), the error the
  handler threw (if it threw), and the client afterwards. The calls of the
  logger are taken to return.
\<close>

record handled =
  emitted :: "(jsval \<times> jsval) list"
  thrown :: "js_error option"
  listener :: client

text \<open>\<^verbatim>\<open>msg.data.forEach(event => { ... self.emit(event.key, event) })\<close> over the
  elements of an array. For each element the log line reads \<^verbatim>\<open>event.key\<close>, which
  throws on \<^verbatim>\<open>null\<close>, and prints it, which may throw; then \<^verbatim>\<open>self.emit\<close> is
  called. The first throw ends the loop and leaves the handler, after the
  calls made so far.\<close>

fun emit_each ::
  "'e emitter \<Rightarrow> 'e \<Rightarrow> client \<Rightarrow> jsval list \<Rightarrow> (jsval \<times> jsval) list \<Rightarrow> handled" where
  "emit_each emit e c [] done = \<lparr> emitted = done, thrown = None, listener = c \<rparr>"
| "emit_each emit e c (event # events) done =
     (case get_prop event ''key'' of
        Inl err \<Rightarrow> \<lparr> emitted = done, thrown = Some err, listener = c \<rparr>
      | Inr k \<Rightarrow>
          if to_string_throws k
          then \<lparr> emitted = done,
                 thrown = Some (TypeError ''Cannot convert object to primitive value''),
                 listener = c \<rparr>
          else (case emit e c k event of
                  (Some err, e1, c1) \<Rightarrow>
                    \<lparr> emitted = done @ [(k, event)], thrown = Some err, listener = c1 \<rparr>
                | (None, e1, c1) \<Rightarrow> emit_each emit e1 c1 events (done @ [(k, event)])))"

text \<open>The handler (lines 446--489) after \<^verbatim>\<open>JSON.parse\<close> has returned \<open>m\<close>. In the
  second branch the log line prints \<^verbatim>\<open>msg.meta.message\<close> before \<^verbatim>\<open>self.emit\<close> is
  called.\<close>

definition dispatch :: "'e emitter \<Rightarrow> 'e \<Rightarrow> client \<Rightarrow> jsval \<Rightarrow> handled" where
  "dispatch emit e c m =
     (case get_prop m ''meta'' of
        Inl err \<Rightarrow> \<lparr> emitted = [], thrown = Some err, listener = c \<rparr>
      | Inr meta \<Rightarrow>
          (case get_prop meta ''message'' of
             Inl err \<Rightarrow> \<lparr> emitted = [], thrown = Some err, listener = c \<rparr>
           | Inr message \<Rightarrow>
               if message = JString ''events''
               then (case get_prop m ''data'' of
                       Inl err \<Rightarrow> \<lparr> emitted = [], thrown = Some err, listener = c \<rparr>
                     | Inr (JArray events) \<Rightarrow> emit_each emit e c events []
                     | Inr JUndefined \<Rightarrow>
                         \<lparr> emitted = [], thrown = Some (TypeError
                             ''Cannot read properties of undefined (reading forEach)''),
                           listener = c \<rparr>
                     | Inr JNull \<Rightarrow>
                         \<lparr> emitted = [], thrown = Some (TypeError
                             ''Cannot read properties of null (reading forEach)''),
                           listener = c \<rparr>
                     | Inr _ \<Rightarrow>
                         \<lparr> emitted = [], thrown = Some (TypeError
                             ''msg.data.forEach is not a function''),
                           listener = c \<rparr>)
               else if to_string_throws message
               then \<lparr> emitted = [],
                      thrown = Some (TypeError ''Cannot convert object to primitive value''),
                      listener = c \<rparr>
               else (case get_prop m ''data'' of
                       Inl err \<Rightarrow> \<lparr> emitted = [], thrown = Some err, listener = c \<rparr>
                     | Inr d \<Rightarrow>
                         (case emit e c message d of
                            (err, e1, c1) \<Rightarrow>
                              \<lparr> emitted = [(message, d)], thrown = err, listener = c1 \<rparr>))))"

text \<open>
  The \<^verbatim>\<open>message\<close> handler. \<^verbatim>\<open>JSON.parse\<close> is the platform's: it is the parameter
  \<open>parse\<close>, which gives \<open>None\<close> where \<^verbatim>\<open>JSON.parse\<close> throws. The handler catches
  that throw, logs and returns.
\<close>

definition on_message ::
  "(string \<Rightarrow> jsval option) \<Rightarrow> 'e emitter \<Rightarrow> 'e \<Rightarrow> client \<Rightarrow> string \<Rightarrow> handled" where
  "on_message parse emit e c msg =
     (case parse msg of
        None \<Rightarrow> \<lparr> emitted = [], thrown = None, listener = c \<rparr>
      | Some m \<Rightarrow> dispatch emit e c m)"

subsection \<open>The emitter of the platform\<close>

text \<open>
  \<^verbatim>\<open>EventEmitter.prototype.emit\<close> of Node, for listeners that return or throw and
  change neither the registry nor the client. The registry gives the listeners
  found under the property key of a name, in the order of their registration
  (listeners of the error monitor, which have a symbol for key, are outside of
  it). A name that is strictly the string \<^verbatim>\<open>error\<close> with no listener throws
  \<^verbatim>\<open>ERR_UNHANDLED_ERROR\<close>, which carries the payload (a payload that is an
  \<^verbatim>\<open>Error\<close> would be thrown itself; a value read from JSON never is one).
  Otherwise the name is made a property key, which throws where printing it
  throws, and the listeners are called in order: the first that throws ends the
  call with its error. Without listeners the call returns.
\<close>

type_synonym registry = "jsval \<Rightarrow> (jsval \<Rightarrow> js_error option) list"

fun call_listeners :: "(jsval \<Rightarrow> js_error option) list \<Rightarrow> jsval \<Rightarrow> js_error option" where
  "call_listeners [] payload = None"
| "call_listeners (l # ls) payload =
     (case l payload of
        Some err \<Rightarrow> Some err
      | None \<Rightarrow> call_listeners ls payload)"

definition node_emit :: "registry emitter" where
  "node_emit registry c name payload =
     (if name = JString ''error'' \<and> List.null (registry name)
      then (Some (UnhandledError payload), registry, c)
      else if to_string_throws name
      then (Some (TypeError ''Cannot convert object to primitive value''), registry, c)
      else (call_listeners (registry name) payload, registry, c))"

text \<open>The registry of a client nobody has subscribed to.\<close>

definition no_listeners :: registry where
  "no_listeners name = []"

section \<open>A JSON reader\<close>

text \<open>
  \<^verbatim>\<open>JSON.parse\<close> is not code of the repository. To run the handler on the frames
  of the specification, this section reads JSON texts of 8-bit characters
  (grammar of ECMA-404): \<open>None\<close> where the text is not JSON. An escape
  \<^verbatim>\<open>\uXXXX\<close> above \<^verbatim>\<open>00FF\<close> has no 8-bit character and is outside of what this
  reader reads. The statements about the handler hold for any reader; this one
  instantiates them.
\<close>

text \<open>JSON white space.\<close>

definition ws_char :: "char \<Rightarrow> bool" where
  "ws_char ch = (ch = CHR 0x20 \<or> ch = CHR 0x09 \<or> ch = CHR 0x0A \<or> ch = CHR 0x0D)"

definition skip_ws :: "string \<Rightarrow> string" where
  "skip_ws s = dropWhile ws_char s"

definition is_digit :: "char \<Rightarrow> bool" where
  "is_digit ch = (ch \<in> set ''0123456789'')"

definition digit_val :: "char \<Rightarrow> nat" where
  "digit_val ch = of_char ch - 48"

definition hex_val :: "char \<Rightarrow> nat option" where
  "hex_val ch =
     (if ch \<in> set ''0123456789'' then Some (of_char ch - 48)
      else if ch \<in> set ''ABCDEF'' then Some (of_char ch - 55)
      else if ch \<in> set ''abcdef'' then Some (of_char ch - 87)
      else None)"

definition digits_val :: "string \<Rightarrow> nat" where
  "digits_val ds = foldl (\<lambda>n d. 10 * n + digit_val d) 0 ds"

definition hex4 :: "char \<Rightarrow> char \<Rightarrow> char \<Rightarrow> char \<Rightarrow> nat option" where
  "hex4 a b c d =
     (case (hex_val a, hex_val b, hex_val c, hex_val d) of
        (Some w, Some x, Some y, Some z) \<Rightarrow> Some (4096 * w + 256 * x + 16 * y + z)
      | _ \<Rightarrow> None)"

text \<open>The character a two-character escape of a JSON string stands for.\<close>

definition escape_char :: "char \<Rightarrow> char option" where
  "escape_char e =
     (if e = CHR 0x22 then Some (CHR 0x22)
      else if e = CHR 0x5C then Some (CHR 0x5C)
      else if e = CHR ''/'' then Some (CHR ''/'')
      else if e = CHR ''b'' then Some (CHR 0x08)
      else if e = CHR ''f'' then Some (CHR 0x0C)
      else if e = CHR ''n'' then Some (CHR 0x0A)
      else if e = CHR ''r'' then Some (CHR 0x0D)
      else if e = CHR ''t'' then Some (CHR 0x09)
      else None)"

text \<open>The characters of a JSON string after its opening quote, up to the closing
  quote: the string and the text after it.\<close>

fun parse_chars :: "string \<Rightarrow> string \<Rightarrow> (string \<times> string) option" where
  "parse_chars [] acc = None"
| "parse_chars (ch # cs) acc =
     (if ch = CHR 0x22 then Some (rev acc, cs)
      else if ch = CHR 0x5C then
        (case cs of
           [] \<Rightarrow> None
         | e # cs1 \<Rightarrow>
             if e = CHR ''u'' then
               (case cs1 of
                  a # b # c # d # cs2 \<Rightarrow>
                    (case hex4 a b c d of
                       None \<Rightarrow> None
                     | Some n \<Rightarrow> if n < 256 then parse_chars cs2 (char_of n # acc) else None)
                | _ \<Rightarrow> None)
             else (case escape_char e of
                     None \<Rightarrow> None
                   | Some x \<Rightarrow> parse_chars cs1 (x # acc)))
      else if (of_char ch :: nat) < 32 then None
      else parse_chars cs (ch # acc))"

text \<open>A JSON number: an optional minus sign, an integer part without a leading
  zero, an optional fraction and an optional exponent.\<close>

definition parse_int_part :: "string \<Rightarrow> (rat \<times> string) option" where
  "parse_int_part s =
     (case takeWhile is_digit s of
        [] \<Rightarrow> None
      | d # ds \<Rightarrow>
          if d = CHR ''0'' \<and> ds \<noteq> [] then None
          else Some (of_nat (digits_val (d # ds)), dropWhile is_digit s))"

definition parse_fraction :: "rat \<Rightarrow> string \<Rightarrow> (rat \<times> string) option" where
  "parse_fraction m s =
     (if take 1 s = ''.''
      then (case takeWhile is_digit (drop 1 s) of
              [] \<Rightarrow> None
            | f # fs \<Rightarrow>
                Some (m + of_nat (digits_val (f # fs)) / 10 ^ length (f # fs),
                      dropWhile is_digit (drop 1 s)))
      else Some (m, s))"

definition parse_exponent_digits :: "bool \<Rightarrow> rat \<Rightarrow> string \<Rightarrow> (rat \<times> string) option" where
  "parse_exponent_digits neg m s =
     (case takeWhile is_digit s of
        [] \<Rightarrow> None
      | e # es \<Rightarrow>
          Some (if neg then m / 10 ^ digits_val (e # es) else m * 10 ^ digits_val (e # es),
                dropWhile is_digit s))"

definition parse_exponent :: "rat \<Rightarrow> string \<Rightarrow> (rat \<times> string) option" where
  "parse_exponent m s =
     (if take 1 s = ''e'' \<or> take 1 s = ''E''
      then (if take 1 (drop 1 s) = ''-'' then parse_exponent_digits True m (drop 2 s)
            else if take 1 (drop 1 s) = ''+'' then parse_exponent_digits False m (drop 2 s)
            else parse_exponent_digits False m (drop 1 s))
      else Some (m, s))"

definition parse_unsigned :: "string \<Rightarrow> (rat \<times> string) option" where
  "parse_unsigned s =
     (case parse_int_part s of
        None \<Rightarrow> None
      | Some (i, r1) \<Rightarrow>
          (case parse_fraction i r1 of
             None \<Rightarrow> None
           | Some (m, r2) \<Rightarrow> parse_exponent m r2))"

definition parse_number :: "string \<Rightarrow> (number \<times> string) option" where
  "parse_number s =
     (if take 1 s = ''-''
      then (case parse_unsigned (drop 1 s) of
              None \<Rightarrow> None
            | Some (x, rest) \<Rightarrow> Some (Finite (- x), rest))
      else (case parse_unsigned s of
              None \<Rightarrow> None
            | Some (x, rest) \<Rightarrow> Some (Finite x, rest)))"

text \<open>A member of an object: a key that is written twice keeps its place and takes
  the later value.\<close>

fun put_member :: "string \<Rightarrow> jsval \<Rightarrow> (string \<times> jsval) list \<Rightarrow> (string \<times> jsval) list" where
  "put_member k v [] = [(k, v)]"
| "put_member k v ((k1, v1) # kvs) =
     (if k1 = k then (k, v) # kvs else (k1, v1) # put_member k v kvs)"

text \<open>A JSON value, the elements of an array after its bracket and the members
  of an object after its brace. The first argument bounds the number of nested
  calls; every call reads at least one character, so one more than the length
  of the text is enough.\<close>

fun parse_value :: "nat \<Rightarrow> string \<Rightarrow> (jsval \<times> string) option"
  and parse_elements :: "nat \<Rightarrow> string \<Rightarrow> jsval list \<Rightarrow> (jsval list \<times> string) option"
  and parse_members ::
    "nat \<Rightarrow> string \<Rightarrow> (string \<times> jsval) list \<Rightarrow> ((string \<times> jsval) list \<times> string) option"
where
  "parse_value 0 s = None"
| "parse_value (Suc n) s =
     (case skip_ws s of
        [] \<Rightarrow> None
      | ch # cs \<Rightarrow>
          if ch = CHR ''{'' then
            (if take 1 (skip_ws cs) = ''}'' then Some (JObject [], drop 1 (skip_ws cs))
             else (case parse_members n cs [] of
                     None \<Rightarrow> None
                   | Some (kvs, rest) \<Rightarrow> Some (JObject kvs, rest)))
          else if ch = CHR ''['' then
            (if take 1 (skip_ws cs) = '']'' then Some (JArray [], drop 1 (skip_ws cs))
             else (case parse_elements n cs [] of
                     None \<Rightarrow> None
                   | Some (vs, rest) \<Rightarrow> Some (JArray vs, rest)))
          else if ch = CHR 0x22 then
            (case parse_chars cs [] of
               None \<Rightarrow> None
             | Some (str, rest) \<Rightarrow> Some (JString str, rest))
          else if take 4 (ch # cs) = ''true'' then Some (JBool True, drop 4 (ch # cs))
          else if take 5 (ch # cs) = ''false'' then Some (JBool False, drop 5 (ch # cs))
          else if take 4 (ch # cs) = ''null'' then Some (JNull, drop 4 (ch # cs))
          else (case parse_number (ch # cs) of
                  None \<Rightarrow> None
                | Some (x, rest) \<Rightarrow> Some (JNumber x, rest)))"
| "parse_elements 0 s vs = None"
| "parse_elements (Suc n) s vs =
     (case parse_value n s of
        None \<Rightarrow> None
      | Some (v, rest) \<Rightarrow>
          if take 1 (skip_ws rest) = '','' then parse_elements n (drop 1 (skip_ws rest)) (vs @ [v])
          else if take 1 (skip_ws rest) = '']'' then Some (vs @ [v], drop 1 (skip_ws rest))
          else None)"
| "parse_members 0 s kvs = None"
| "parse_members (Suc n) s kvs =
     (case skip_ws s of
        [] \<Rightarrow> None
      | ch # cs \<Rightarrow>
          if ch \<noteq> CHR 0x22 then None
          else (case parse_chars cs [] of
                  None \<Rightarrow> None
                | Some (k, rest) \<Rightarrow>
                    if take 1 (skip_ws rest) \<noteq> '':'' then None
                    else (case parse_value n (drop 1 (skip_ws rest)) of
                            None \<Rightarrow> None
                          | Some (v, rest1) \<Rightarrow>
                              if take 1 (skip_ws rest1) = '',''
                              then parse_members n (drop 1 (skip_ws rest1)) (put_member k v kvs)
                              else if take 1 (skip_ws rest1) = ''}''
                              then Some (put_member k v kvs, drop 1 (skip_ws rest1))
                              else None)))"

text \<open>The whole text must be one value, white space apart.\<close>

definition json_parse :: "string \<Rightarrow> jsval option" where
  "json_parse s =
     (case parse_value (Suc (length s)) s of
        None \<Rightarrow> None
      | Some (v, rest) \<Rightarrow> if skip_ws rest = [] then Some v else None)"

section \<open>Observations and example values\<close>

text \<open>The \<^verbatim>\<open>_limit\<close> a run's first request carries in its body.\<close>

definition carried_limit :: "'a run \<Rightarrow> jsval option" where
  "carried_limit r =
     (case sent r of
        [] \<Rightarrow> None
      | q # qs \<Rightarrow>
          (case req_data q of
             Raw (JObject kvs) \<Rightarrow> map_of kvs ''_limit''
           | _ \<Rightarrow> None))"

text \<open>What a request asks for, its headers apart: method, path and body.\<close>

definition asks :: "request \<Rightarrow> string \<times> string \<times> body" where
  "asks q = (req_method q, req_url q, req_data q)"

text \<open>A client as the constructor makes it, and results axios may give.\<close>

definition controller :: client where
  "controller =
     new_client \<lparr> opt_baseURL = ''https://unifi:8443'', opt_user = JString ''admin'',
                  opt_password = JString ''secret'', opt_site = None,
                  opt_rejectUnauthorized = JBool False \<rparr>"

definition no_headers :: response_headers where
  "no_headers = \<lparr> set_cookie = None, other_headers = [] \<rparr>"

definition unauthorized :: axios_error where
  "unauthorized =
     \<lparr> err_code = Some ''ERR_BAD_REQUEST'',
       err_message = ''Request failed with status code 401'',
       err_response = Some \<lparr> res_status = 401, res_data = JObject [], res_headers = no_headers \<rparr> \<rparr>"

definition self_signed_failure :: axios_error where
  "self_signed_failure =
     \<lparr> err_code = Some ''DEPTH_ZERO_SELF_SIGNED_CERT'',
       err_message = ''self signed certificate'',
       err_response = None \<rparr>"

definition not_found :: axios_error where
  "not_found =
     \<lparr> err_code = Some ''ERR_BAD_REQUEST'',
       err_message = ''Request failed with status code 404'',
       err_response = Some \<lparr> res_status = 404, res_data = JString ''Not Found'',
                              res_headers = no_headers \<rparr> \<rparr>"

definition connection_refused :: axios_error where
  "connection_refused =
     \<lparr> err_code = Some ''ECONNREFUSED'',
       err_message = ''connect ECONNREFUSED 10.0.0.1:8443'',
       err_response = None \<rparr>"

definition login_ok :: axios_response where
  "login_ok =
     \<lparr> res_status = 200,
       res_data = JObject [(''meta'', JObject [(''rc'', JString ''ok'')]), (''data'', JArray [])],
       res_headers = \<lparr> set_cookie = Some [''unifises=S1; Path=/; Secure; HttpOnly'',
                                            ''csrf_token=T1; Path=/; Secure''],
                       other_headers = [] \<rparr> \<rparr>"

definition sites_ok :: axios_response where
  "sites_ok =
     \<lparr> res_status = 200,
       res_data = JObject [(''meta'', JObject [(''rc'', JString ''ok'')]),
                           (''data'', JArray [JObject [(''name'', JString ''default'')]])],
       res_headers = no_headers \<rparr>"

definition minus_five :: filter_options where
  "minus_five = \<lparr> start = None, limit = Some (Finite (- 5)), archived = JUndefined, period = None \<rparr>"

text \<open>The settings of a client that reading the cookies of a login response leaves alone.\<close>

definition same_settings :: "client \<Rightarrow> client \<Rightarrow> bool" where
  "same_settings c d =
     (baseURL d = baseURL c \<and> user d = user c \<and> password d = password c \<and> site d = site c \<and>
      rejectUnauthorized d = rejectUnauthorized c \<and> wss d = wss c \<and>
      authenticationInProgress d = authenticationInProgress c)"

definition stale_controller :: client where
  "stale_controller = controller\<lparr> session := Some ''S0'', csrfToken := Some ''T0'' \<rparr>"

text \<open>\<open>n\<close> rounds of a failure followed by the response to a login.\<close>

definition rounds :: "nat \<Rightarrow> axios_error \<Rightarrow> axios_response \<Rightarrow> axios_result list" where
  "rounds n error login = concat (replicate n [Failure error, Response login])"



text \<open>Two frames of the shape of the specification with an event named
  \<^verbatim>\<open>error\<close>.\<close>

definition error_events_frame :: string where
  \<open>error_events_frame = ''{"meta":{"message":"events"},"data":[{"key":"error"},{"key":"B"}]}''\<close>

definition error_sync_frame :: string where
  \<open>error_sync_frame = ''{"meta":{"message":"error"},"data":{"mac":"AA:BB:CC:DD:EE:FF"}}''\<close>

text \<open>The frames of the specification, and the smallest JSON text without
  \<^verbatim>\<open>meta\<close>.\<close>

definition not_json_frame :: string where
  "not_json_frame = ''not-json''"



definition empty_object_frame :: string where
  "empty_object_frame = ''{}''"

section \<open>Properties of the request executor\<close>

lemma sent_api_request:
  "\<exists>more. sent (api_request c options b net) = build_request c options b # more"
proof (cases net)
  case Nil
  then show ?thesis by simp
next
  case (Cons r rest)
  then show ?thesis
    by (cases r) (simp_all add: Let_def split: option.split settle.split)
qed

lemma or_default_idem: "or_default (Some (or_default m d)) d = or_default m d"
  by (cases m) auto

lemma build_request_set_method:
  "build_request c (set_method options) b = build_request c options b"
  by (simp add: build_request_def set_method_def or_default_idem del: or_default.simps)

lemma set_method_idem: "set_method (set_method options) = set_method options"
  by (simp add: set_method_def or_default_idem del: or_default.simps)

lemma api_request_set_method:
  "api_request c (set_method options) b net = api_request c options b net"
proof (cases net)
  case Nil
  then show ?thesis by (simp add: build_request_set_method)
next
  case (Cons r rest)
  then show ?thesis
    by (cases r)
      (simp_all add: build_request_set_method set_method_idem Let_def
         cong: option.case_cong settle.case_cong if_cong)
qed

lemma asks_build_request:
  "asks (build_request c options b) =
   (or_default (o_method options) ''GET'', or_default (o_path options) ''/'', b)"
  by (simp add: asks_def build_request_def)

lemma same_settings_refl [simp]: "same_settings c c"
  by (simp add: same_settings_def)

lemma same_settings_trans: "same_settings c d \<Longrightarrow> same_settings d e \<Longrightarrow> same_settings c e"
  by (simp add: same_settings_def)

lemma store_attr_settings: "same_settings c (store_attr c attr)"
  by (simp add: store_attr_def same_settings_def)

lemma foldl_store_attr_settings: "same_settings c (foldl store_attr c attrs)"
proof (induction attrs arbitrary: c)
  case Nil
  show ?case by simp
next
  case (Cons a attrs)
  have "same_settings (store_attr c a) (foldl store_attr (store_attr c a) attrs)"
    by (rule Cons.IH)
  with store_attr_settings [of c a] show ?case
    by (auto intro: same_settings_trans)
qed

lemma store_cookie_settings: "same_settings c (store_cookie c cookie)"
  by (simp add: store_cookie_def foldl_store_attr_settings)

lemma foldl_store_cookie_settings: "same_settings c (foldl store_cookie c cookies)"
proof (induction cookies arbitrary: c)
  case Nil
  show ?case by simp
next
  case (Cons a cookies)
  have "same_settings (store_cookie c a) (foldl store_cookie (store_cookie c a) cookies)"
    by (rule Cons.IH)
  with store_cookie_settings [of c a] show ?case
    by (auto intro: same_settings_trans)
qed

lemma authenticate_then_settings:
  "same_settings (c\<lparr> authenticationInProgress := False \<rparr>) (authenticate_then c response)"
  by (simp add: authenticate_then_def Let_def foldl_store_cookie_settings split: option.split)

lemma authenticate_then_flag [simp]:
  "\<not> authenticationInProgress (authenticate_then c response)"
  using authenticate_then_settings [of c response] by (simp add: same_settings_def)

lemma login_body_flag [simp]:
  "login_body (c\<lparr> authenticationInProgress := f \<rparr>) = login_body c"
  by (simp add: login_body_def)

lemma authenticate_then_login_body [simp]:
  "login_body (authenticate_then c response) = login_body c"
  using authenticate_then_settings [of c response] by (simp add: same_settings_def login_body_def)

lemma build_request_after_login:
  "build_request (authenticate_then c response) options b =
   (build_request c options b)\<lparr> req_headers := request_headers (authenticate_then c response) \<rparr>"
  using authenticate_then_settings [of c response]
  by (simp add: same_settings_def build_request_def)

text \<open>One round: a credential rejection, then a login that succeeds.\<close>

lemma api_request_round:
  assumes "\<not> authenticationInProgress c"
    and "err_code error \<noteq> Some ''DEPTH_ZERO_SELF_SIGNED_CERT''"
    and "err_response error = Some r" and "res_status r = 401"
  shows "api_request c options b (Failure error # Response login # rest) =
     (api_request
        (authenticate_then (c\<lparr> authenticationInProgress := True \<rparr>)
           \<lparr> data = res_data login, headers = res_headers login \<rparr>) options b rest)
     \<lparr> sent := build_request c options b
          # build_request (c\<lparr> authenticationInProgress := True \<rparr>) login_options (login_body c)
          # sent (api_request
                   (authenticate_then (c\<lparr> authenticationInProgress := True \<rparr>)
                      \<lparr> data = res_data login, headers = res_headers login \<rparr>) options b rest) \<rparr>"
  using assms by (simp add: api_request_set_method Let_def)


lemma rounds_Suc:
  "rounds (Suc n) error login @ net = Failure error # Response login # rounds n error login @ net"
  by (simp add: rounds_def)

lemma rounds_outcome:
  assumes "err_code error \<noteq> Some ''DEPTH_ZERO_SELF_SIGNED_CERT''"
    and "err_response error = Some r" and "res_status r = 401"
  shows "\<not> authenticationInProgress c \<Longrightarrow>
     outcome (api_request c options b (rounds n error login @ [Response final])) =
       Resolved \<lparr> data = res_data final, headers = res_headers final \<rparr>"
proof (induction n arbitrary: c)
  case 0
  show ?case by (simp add: rounds_def)
next
  case (Suc n)
  let ?c = "authenticate_then (c\<lparr> authenticationInProgress := True \<rparr>)
              \<lparr> data = res_data login, headers = res_headers login \<rparr>"
  let ?net = "rounds n error login @ [Response final]"
  have flag: "\<not> authenticationInProgress ?c"
    by simp
  have step: "api_request c options b (Failure error # Response login # ?net) =
      (api_request ?c options b ?net)
      \<lparr> sent := build_request c options b
           # build_request (c\<lparr> authenticationInProgress := True \<rparr>) login_options (login_body c)
           # sent (api_request ?c options b ?net) \<rparr>"
    using Suc.prems assms by (rule api_request_round)
  show ?case
    unfolding rounds_Suc step using Suc.IH [OF flag] by simp
qed

text \<open>
  Claim C1, as amended. Every send that is answered by a 401 while no
  authentication is in progress is followed by one login and, when the login
  succeeds, by one more send of the request, which is handled like a first
  send. So after \<open>n\<close> rounds of a 401 and a successful login the requests sent
  are \<open>n\<close> times the request and the login, then the request once more: the
  request is sent \<open>n + 1\<close> times, for every \<open>n\<close>, and the promise resolves with
  the answer to the last send.
\<close>

theorem request_is_sent_again_after_every_successful_login:
  assumes "\<not> authenticationInProgress c"
    and "err_code error \<noteq> Some ''DEPTH_ZERO_SELF_SIGNED_CERT''"
    and "err_response error = Some r" and "res_status r = 401"
  shows "map asks (sent (api_request c options b (rounds n error login @ [Response final]))) =
           concat (replicate n [asks (build_request c options b),
                                (''POST'', ''/login'', login_body c)]) @
           [asks (build_request c options b)] \<and>
         outcome (api_request c options b (rounds n error login @ [Response final])) =
           Resolved \<lparr> data = res_data final, headers = res_headers final \<rparr>"
proof -
  have sends: "\<not> authenticationInProgress k \<Longrightarrow>
     map asks (sent (api_request k options b (rounds n error login @ [Response final]))) =
       concat (replicate n [asks (build_request k options b),
                            (''POST'', ''/login'', login_body k)]) @
       [asks (build_request k options b)]" for k
  proof (induction n arbitrary: k)
    case 0
    show ?case by (simp add: rounds_def)
  next
    case (Suc n)
    let ?k = "authenticate_then (k\<lparr> authenticationInProgress := True \<rparr>)
                \<lparr> data = res_data login, headers = res_headers login \<rparr>"
    let ?net = "rounds n error login @ [Response final]"
    have flag: "\<not> authenticationInProgress ?k"
      by simp
    have body: "login_body ?k = login_body k"
      by simp
    have step: "api_request k options b (Failure error # Response login # ?net) =
        (api_request ?k options b ?net)
        \<lparr> sent := build_request k options b
             # build_request (k\<lparr> authenticationInProgress := True \<rparr>) login_options (login_body k)
             # sent (api_request ?k options b ?net) \<rparr>"
      using Suc.prems assms(2-4) by (rule api_request_round)
    have login: "asks (build_request (k\<lparr> authenticationInProgress := True \<rparr>) login_options
                    (login_body k)) = (''POST'', ''/login'', login_body k)"
      by (simp add: asks_build_request login_options_def)
    have same: "asks (build_request ?k options b) = asks (build_request k options b)"
      by (simp add: asks_build_request)
    from Suc.IH [OF flag] have ih:
      "map asks (sent (api_request ?k options b ?net)) =
         concat (replicate n [asks (build_request ?k options b),
                              (''POST'', ''/login'', login_body ?k)]) @
         [asks (build_request ?k options b)]" .
    show ?case
      unfolding rounds_Suc step by (simp add: ih login same body)
  qed
  have "outcome (api_request c options b (rounds n error login @ [Response final])) =
      Resolved \<lparr> data = res_data final, headers = res_headers final \<rparr>"
    using assms(2-4) assms(1) by (rule rounds_outcome)
  with sends [OF assms(1)] show ?thesis by blast
qed

theorem request_is_sent_again_after_every_successful_login_witness:
  "err_code unauthorized \<noteq> Some ''DEPTH_ZERO_SELF_SIGNED_CERT'' \<and>
   err_response unauthorized =
     Some \<lparr> res_status = 401, res_data = JObject [], res_headers = no_headers \<rparr> \<and>
   \<not> authenticationInProgress controller \<and>
   map asks (sent (api_request controller (get ''/stat/sites'') (Raw (JString []))
                     (rounds 3 unauthorized login_ok @ [Response sites_ok]))) =
     [(''GET'', ''/stat/sites'', Raw (JString [])), (''POST'', ''/login'', login_body controller),
      (''GET'', ''/stat/sites'', Raw (JString [])), (''POST'', ''/login'', login_body controller),
      (''GET'', ''/stat/sites'', Raw (JString [])), (''POST'', ''/login'', login_body controller),
      (''GET'', ''/stat/sites'', Raw (JString []))] \<and>
   outcome (api_request controller (get ''/stat/sites'') (Raw (JString []))
              (rounds 3 unauthorized login_ok @ [Response sites_ok])) =
     Resolved \<lparr> data = res_data sites_ok, headers = res_headers sites_ok \<rparr>"
proof -
  have a: "err_code unauthorized \<noteq> Some ''DEPTH_ZERO_SELF_SIGNED_CERT''"
    by (simp add: unauthorized_def)
  have b: "err_response unauthorized =
     Some \<lparr> res_status = 401, res_data = JObject [], res_headers = no_headers \<rparr>"
    by (simp add: unauthorized_def)
  have c: "res_status \<lparr> res_status = 401, res_data = JObject [], res_headers = no_headers \<rparr> = 401"
    by simp
  have d: "\<not> authenticationInProgress controller"
    by (simp add: controller_def new_client_def)
  have e: "asks (build_request controller (get ''/stat/sites'') (Raw (JString []))) =
           (''GET'', ''/stat/sites'', Raw (JString []))"
    by (simp add: asks_build_request get_def)
  show ?thesis
    using a b d
      request_is_sent_again_after_every_successful_login
        [OF d a b c, of "get ''/stat/sites''" "Raw (JString [])" 3 login_ok sites_ok]
    by (simp add: e eval_nat_numeral)
qed

text \<open>
  The claim as written fails: the first send is answered by a 401 while no
  authentication is in progress, the login succeeds, the second send is again
  answered by a 401, the second login succeeds, and the request is sent a
  third time.
\<close>

theorem third_send_after_second_login:
  "\<not> authenticationInProgress controller \<and>
   map asks (sent (api_request controller (get ''/stat/sites'') (Raw (JString []))
      [Failure unauthorized, Response login_ok, Failure unauthorized, Response login_ok,
       Response sites_ok])) =
     [(''GET'', ''/stat/sites'', Raw (JString [])), (''POST'', ''/login'', login_body controller),
      (''GET'', ''/stat/sites'', Raw (JString [])), (''POST'', ''/login'', login_body controller),
      (''GET'', ''/stat/sites'', Raw (JString []))] \<and>
   outcome (api_request controller (get ''/stat/sites'') (Raw (JString []))
      [Failure unauthorized, Response login_ok, Failure unauthorized, Response login_ok,
       Response sites_ok]) =
     Resolved \<lparr> data = res_data sites_ok, headers = res_headers sites_ok \<rparr>"
proof -
  have a: "err_code unauthorized \<noteq> Some ''DEPTH_ZERO_SELF_SIGNED_CERT''"
    by (simp add: unauthorized_def)
  have b: "err_response unauthorized =
     Some \<lparr> res_status = 401, res_data = JObject [], res_headers = no_headers \<rparr>"
    by (simp add: unauthorized_def)
  have c: "res_status \<lparr> res_status = 401, res_data = JObject [], res_headers = no_headers \<rparr> = 401"
    by simp
  have d: "\<not> authenticationInProgress controller"
    by (simp add: controller_def new_client_def)
  let ?c1 = "authenticate_then (controller\<lparr> authenticationInProgress := True \<rparr>)
               \<lparr> data = res_data login_ok, headers = res_headers login_ok \<rparr>"
  have d1: "\<not> authenticationInProgress ?c1"
    by simp
  have asks_any: "\<And>k. asks (build_request k (get ''/stat/sites'') (Raw (JString []))) =
           (''GET'', ''/stat/sites'', Raw (JString []))"
    by (simp add: asks_build_request get_def)
  have asks_login: "\<And>k lb. asks (build_request k login_options lb) = (''POST'', ''/login'', lb)"
    by (simp add: asks_build_request login_options_def)
  have last: "api_request (authenticate_then (?c1\<lparr> authenticationInProgress := True \<rparr>)
                 \<lparr> data = res_data login_ok, headers = res_headers login_ok \<rparr>)
               (get ''/stat/sites'') (Raw (JString [])) [Response sites_ok] =
        \<lparr> outcome = Resolved \<lparr> data = res_data sites_ok, headers = res_headers sites_ok \<rparr>,
          client_after = authenticate_then (?c1\<lparr> authenticationInProgress := True \<rparr>)
                 \<lparr> data = res_data login_ok, headers = res_headers login_ok \<rparr>,
          sent = [build_request (authenticate_then (?c1\<lparr> authenticationInProgress := True \<rparr>)
                 \<lparr> data = res_data login_ok, headers = res_headers login_ok \<rparr>)
               (get ''/stat/sites'') (Raw (JString []))] \<rparr>"
    by simp
  show ?thesis
    unfolding api_request_round [OF d a b c] api_request_round [OF d1 a b c] last
    using d by (simp add: asks_any asks_login)
qed

text \<open>
  Claim C6. A failure whose code is \<^verbatim>\<open>DEPTH_ZERO_SELF_SIGNED_CERT\<close> rejects at once
  with the error \<^verbatim>\<open>Self signed certificate\<close>, whatever else the failure carries
  (also a response with status 401) and whether or not an authentication is in
  progress: the only request sent is the request itself (no login, no second
  send) and the client is unchanged.
\<close>

theorem self_signed_certificate_is_fatal:
  "err_code error = Some ''DEPTH_ZERO_SELF_SIGNED_CERT'' \<Longrightarrow>
   api_request c options b (Failure error # rest) =
     \<lparr> outcome = Rejected (Error ''Self signed certificate''),
       client_after = c, sent = [build_request c options b] \<rparr>"
  by simp

theorem self_signed_certificate_is_fatal_witness:
  "err_code self_signed_failure = Some ''DEPTH_ZERO_SELF_SIGNED_CERT'' \<and>
   api_request controller (get ''/stat/sites'') (Raw (JString []))
     [Failure self_signed_failure, Response login_ok, Response sites_ok] =
     \<lparr> outcome = Rejected (Error ''Self signed certificate''),
       client_after = controller,
       sent = [build_request controller (get ''/stat/sites'') (Raw (JString []))] \<rparr>"
proof -
  have h: "err_code self_signed_failure = Some ''DEPTH_ZERO_SELF_SIGNED_CERT''"
    by (simp add: self_signed_failure_def)
  show ?thesis
    using h self_signed_certificate_is_fatal [OF h] by blast
qed

text \<open>
  Claim C5, as amended. A failure that is not the self-signed-certificate
  failure rejects with the error object of axios itself, sends nothing further
  and leaves the client unchanged, when it carries a response whose status is
  not 401, and also (with or without a response) when an authentication is in
  progress. The self-signed-certificate failure rejects with a new error.
\<close>

theorem other_failures_propagate_unchanged:
  "(err_code error \<noteq> Some ''DEPTH_ZERO_SELF_SIGNED_CERT'' \<and>
    (authenticationInProgress c \<or> (\<exists>r. err_response error = Some r \<and> res_status r \<noteq> 401)) \<longrightarrow>
      api_request c options b (Failure error # rest) =
        \<lparr> outcome = Rejected (AxiosError error),
          client_after = c, sent = [build_request c options b] \<rparr>) \<and>
   (err_code error = Some ''DEPTH_ZERO_SELF_SIGNED_CERT'' \<longrightarrow>
      api_request c options b (Failure error # rest) =
        \<lparr> outcome = Rejected (Error ''Self signed certificate''),
          client_after = c, sent = [build_request c options b] \<rparr>)"
  by auto

theorem other_failures_propagate_unchanged_witness:
  "err_code not_found \<noteq> Some ''DEPTH_ZERO_SELF_SIGNED_CERT'' \<and>
   err_response not_found =
     Some \<lparr> res_status = 404, res_data = JString ''Not Found'', res_headers = no_headers \<rparr> \<and>
   api_request controller (get ''/stat/sites'') (Raw (JString []))
     [Failure not_found, Response sites_ok] =
     \<lparr> outcome = Rejected (AxiosError not_found),
       client_after = controller,
       sent = [build_request controller (get ''/stat/sites'') (Raw (JString []))] \<rparr> \<and>
   err_code connection_refused \<noteq> Some ''DEPTH_ZERO_SELF_SIGNED_CERT'' \<and>
   authenticationInProgress (controller\<lparr> authenticationInProgress := True \<rparr>) \<and>
   api_request (controller\<lparr> authenticationInProgress := True \<rparr>) login_options
     (login_body controller) [Failure connection_refused] =
     \<lparr> outcome = Rejected (AxiosError connection_refused),
       client_after = controller\<lparr> authenticationInProgress := True \<rparr>,
       sent = [build_request (controller\<lparr> authenticationInProgress := True \<rparr>) login_options
                 (login_body controller)] \<rparr> \<and>
   err_code self_signed_failure = Some ''DEPTH_ZERO_SELF_SIGNED_CERT'' \<and>
   api_request controller (get ''/stat/sites'') (Raw (JString [])) [Failure self_signed_failure] =
     \<lparr> outcome = Rejected (Error ''Self signed certificate''),
       client_after = controller,
       sent = [build_request controller (get ''/stat/sites'') (Raw (JString []))] \<rparr>"
proof -
  have a: "err_code not_found \<noteq> Some ''DEPTH_ZERO_SELF_SIGNED_CERT''"
    by (simp add: not_found_def)
  have r: "err_response not_found =
     Some \<lparr> res_status = 404, res_data = JString ''Not Found'', res_headers = no_headers \<rparr>"
    by (simp add: not_found_def)
  then have b: "\<exists>r. err_response not_found = Some r \<and> res_status r \<noteq> 401"
    by simp
  have c: "err_code connection_refused \<noteq> Some ''DEPTH_ZERO_SELF_SIGNED_CERT''"
    by (simp add: connection_refused_def)
  have d: "authenticationInProgress (controller\<lparr> authenticationInProgress := True \<rparr>)"
    by simp
  have s: "err_code self_signed_failure = Some ''DEPTH_ZERO_SELF_SIGNED_CERT''"
    by (simp add: self_signed_failure_def)
  show ?thesis
    using a r b c d s
      other_failures_propagate_unchanged
        [of not_found controller "get ''/stat/sites''" "Raw (JString [])" "[Response sites_ok]"]
      other_failures_propagate_unchanged
        [of connection_refused "controller\<lparr> authenticationInProgress := True \<rparr>"
           login_options "login_body controller" "[]"]
      other_failures_propagate_unchanged
        [of self_signed_failure controller "get ''/stat/sites''" "Raw (JString [])" "[]"]
    by blast
qed

text \<open>
  The claim as written fails on the self-signed-certificate failure, a
  transport failure without response: the promise is rejected with a new
  error, not with the error of axios.
\<close>

theorem certificate_failure_is_replaced:
  "err_response self_signed_failure = None \<and>
   outcome (api_request controller (get ''/stat/sites'') (Raw (JString []))
              [Failure self_signed_failure]) = Rejected (Error ''Self signed certificate'') \<and>
   Rejected (Error ''Self signed certificate'') \<noteq>
     (Rejected (AxiosError self_signed_failure) :: api_response settle)"
  by (simp add: self_signed_failure_def)

text \<open>
  A transport failure without response, outside of an authentication: the read
  of \<^verbatim>\<open>error.response.status\<close> throws inside the \<^verbatim>\<open>catch\<close> handler, so the promise
  of \<^verbatim>\<open>_apiRequest\<close> is neither resolved nor rejected.
\<close>

lemma failure_without_response_never_settles:
  assumes "err_code error \<noteq> Some ''DEPTH_ZERO_SELF_SIGNED_CERT''"
    and "\<not> authenticationInProgress c" and "err_response error = None"
  shows "api_request c options b (Failure error # rest) =
     \<lparr> outcome = Stuck (TypeError ''Cannot read properties of undefined (reading status)''),
       client_after = c, sent = [build_request c options b] \<rparr>"
  using assms by simp

lemma connection_refused_never_settles:
  "outcome (api_request controller (get ''/stat/sites'') (Raw (JString []))
             [Failure connection_refused]) =
   Stuck (TypeError ''Cannot read properties of undefined (reading status)'')"
  by (simp add: connection_refused_def controller_def new_client_def)

lemma credential_headers_flag [simp]:
  "credential_headers (c\<lparr> authenticationInProgress := f \<rparr>) = credential_headers c"
  by (simp add: credential_headers_def split: option.split)

lemma build_request_flag [simp]:
  "build_request (c\<lparr> authenticationInProgress := f \<rparr>) options b = build_request c options b"
  by (simp add: build_request_def request_headers_def)

text \<open>
  Claim C7. When the first send is answered by a 401 outside of an
  authentication and the login is answered, the requests sent are the request,
  the login and then the request again: the third is the first with its
  headers replaced by the two fixed headers followed by the credential headers
  (cookie and anti-forgery token) of the client as the authentication left it.
  Method, base address, path, body and agent setting are those of the first
  send.
\<close>

theorem replay_changes_only_credential_headers:
  assumes "\<not> authenticationInProgress c"
    and "err_code error \<noteq> Some ''DEPTH_ZERO_SELF_SIGNED_CERT''"
    and "err_response error = Some r" and "res_status r = 401"
  shows "\<exists>more. sent (api_request c options b (Failure error # Response login # rest)) =
     build_request c options b
     # build_request c login_options (login_body c)
     # (build_request c options b)
         \<lparr> req_headers :=
             [(''Content-Type'', Some ''application/json''), (''Accept'', Some ''application/json'')]
             @ credential_headers (client_after (authenticate c (Response login # rest))) \<rparr>
     # more"
proof -
  let ?c = "authenticate_then (c\<lparr> authenticationInProgress := True \<rparr>)
              \<lparr> data = res_data login, headers = res_headers login \<rparr>"
  have after: "client_after (authenticate c (Response login # rest)) = ?c"
    by simp
  obtain more where more: "sent (api_request ?c options b rest) = build_request ?c options b # more"
    using sent_api_request by blast
  have again: "build_request ?c options b =
      (build_request c options b)
        \<lparr> req_headers :=
            [(''Content-Type'', Some ''application/json''), (''Accept'', Some ''application/json'')]
            @ credential_headers ?c \<rparr>"
    using build_request_after_login [of "c\<lparr> authenticationInProgress := True \<rparr>"]
    by (simp add: request_headers_def)
  have "sent (api_request c options b (Failure error # Response login # rest)) =
     build_request c options b # build_request c login_options (login_body c)
     # build_request ?c options b # more"
    unfolding api_request_round [OF assms] using more by simp
  then show ?thesis
    unfolding after again by blast
qed

theorem replay_changes_only_credential_headers_witness:
  "\<not> authenticationInProgress stale_controller \<and>
   err_code unauthorized \<noteq> Some ''DEPTH_ZERO_SELF_SIGNED_CERT'' \<and>
   err_response unauthorized =
     Some \<lparr> res_status = 401, res_data = JObject [], res_headers = no_headers \<rparr> \<and>
   credential_headers stale_controller =
     [(''cookie'', Some ''unifises=S0;''), (''x-csrf-token'', Some ''T0'')] \<and>
   (\<exists>more. sent (api_request stale_controller (post ''/s/default/stat/sta'')
                    (Stringified (JObject [(''macs'', JArray [])]))
                    [Failure unauthorized, Response login_ok, Response sites_ok]) =
     build_request stale_controller (post ''/s/default/stat/sta'')
       (Stringified (JObject [(''macs'', JArray [])]))
     # build_request stale_controller login_options (login_body stale_controller)
     # (build_request stale_controller (post ''/s/default/stat/sta'')
          (Stringified (JObject [(''macs'', JArray [])])))
         \<lparr> req_headers :=
             [(''Content-Type'', Some ''application/json''), (''Accept'', Some ''application/json''),
              (''cookie'', Some ''unifises=S1;''), (''x-csrf-token'', Some ''T1'')] \<rparr>
     # more)"
proof -
  have d: "\<not> authenticationInProgress stale_controller"
    by (simp add: stale_controller_def controller_def new_client_def)
  have a: "err_code unauthorized \<noteq> Some ''DEPTH_ZERO_SELF_SIGNED_CERT''"
    by (simp add: unauthorized_def)
  have b: "err_response unauthorized =
     Some \<lparr> res_status = 401, res_data = JObject [], res_headers = no_headers \<rparr>"
    by (simp add: unauthorized_def)
  have c: "res_status \<lparr> res_status = 401, res_data = JObject [], res_headers = no_headers \<rparr> = 401"
    by simp
  have old: "credential_headers stale_controller =
     [(''cookie'', Some ''unifises=S0;''), (''x-csrf-token'', Some ''T0'')]"
    by (simp add: credential_headers_def stale_controller_def)
  have new: "credential_headers
      (client_after (authenticate stale_controller [Response login_ok, Response sites_ok])) =
     [(''cookie'', Some ''unifises=S1;''), (''x-csrf-token'', Some ''T1'')]"
    by (simp add: credential_headers_def authenticate_then_def login_ok_def store_cookie_def
        store_attr_def starts_with_def capture_after_def line_terminator_def)
  show ?thesis
    using d a b old
      replay_changes_only_credential_headers
        [OF d a b c, of "post ''/s/default/stat/sta''"
           "Stringified (JObject [(''macs'', JArray [])])" login_ok "[Response sites_ok]"]
    unfolding new by simp
qed

section \<open>Properties of the query operations\<close>

lemma sent_then_data_data [simp]: "sent (then_data_data r) = sent r"
  by (simp add: then_data_data_def)

lemma not_gt_if_le: "number_le x (Finite 0) \<Longrightarrow> \<not> number_gt x (Finite 0)"
  by (cases x) simp_all

lemma limit_rule:
  "limit f = None \<or> (\<exists>x. limit f = Some x \<and> number_le x (Finite 0)) \<Longrightarrow>
   \<not> prop_gt (limit f) (Finite 0)"
  by (auto dest: not_gt_if_le)

lemma carried_limit_then:
  "carried_limit (then_data_data (api_request c options (Raw (JObject kvs)) net)) =
   map_of kvs ''_limit''"
proof -
  obtain more where
    "sent (api_request c options (Raw (JObject kvs)) net) =
     build_request c options (Raw (JObject kvs)) # more"
    using sent_api_request by blast
  then show ?thesis
    by (simp add: carried_limit_def build_request_def)
qed

lemma carried_limit_alarms:
  "\<not> prop_gt (limit (options_of a)) (Finite 0) \<Longrightarrow>
   carried_limit (getAlarms c a site_arg net) = Some (JNumber (Finite 100))"
  by (simp add: getAlarms_def Let_def carried_limit_then)

lemma carried_limit_events:
  "\<not> prop_gt (limit (options_of a)) (Finite 0) \<Longrightarrow>
   carried_limit (getEvents c a site_arg net) = Some (JNumber (Finite 100))"
  by (simp add: getEvents_def Let_def carried_limit_then)

lemma carried_limit_rogue:
  "\<not> prop_gt (limit (options_of a)) (Finite 0) \<Longrightarrow>
   carried_limit (getRogueAP c a site_arg net) = Some (JNumber (Finite 100))"
  by (simp add: getRogueAP_def Let_def carried_limit_then)

text \<open>
  Claim C8. \<^verbatim>\<open>getAlarms\<close>, \<^verbatim>\<open>getEvents\<close> and \<^verbatim>\<open>getRogueAP\<close> send \<^verbatim>\<open>_limit = 100\<close> when
  the caller gives no limit (no options at all, a site name in their place, or
  an options object without \<^verbatim>\<open>limit\<close>) and when the limit given is not positive,
  whatever the other options, the site, the client and the network are.
\<close>

theorem limit_defaults_to_100:
  assumes "limit (options_of a) = None \<or>
           (\<exists>x. limit (options_of a) = Some x \<and> number_le x (Finite 0))"
  shows "carried_limit (getAlarms c a site_arg net) = Some (JNumber (Finite 100)) \<and>
         carried_limit (getEvents c a site_arg net) = Some (JNumber (Finite 100)) \<and>
         carried_limit (getRogueAP c a site_arg net) = Some (JNumber (Finite 100))"
proof -
  from assms have "\<not> prop_gt (limit (options_of a)) (Finite 0)"
    by (rule limit_rule)
  then show ?thesis
    by (simp add: carried_limit_alarms carried_limit_events carried_limit_rogue)
qed

theorem limit_defaults_to_100_witness:
  "limit (options_of (Options minus_five)) = Some (Finite (- 5)) \<and>
   number_le (Finite (- 5)) (Finite 0) \<and>
   carried_limit (getAlarms controller (Options minus_five) None []) = Some (JNumber (Finite 100)) \<and>
   carried_limit (getEvents controller (Options minus_five) None []) = Some (JNumber (Finite 100)) \<and>
   carried_limit (getRogueAP controller (Options minus_five) None []) = Some (JNumber (Finite 100)) \<and>
   limit (options_of NoOptions) = None \<and>
   carried_limit (getAlarms controller NoOptions None []) = Some (JNumber (Finite 100)) \<and>
   carried_limit (getEvents controller NoOptions None []) = Some (JNumber (Finite 100)) \<and>
   carried_limit (getRogueAP controller NoOptions None []) = Some (JNumber (Finite 100))"
proof -
  have five: "limit (options_of (Options minus_five)) = Some (Finite (- 5))"
    by (simp add: minus_five_def)
  have le: "number_le (Finite (- 5)) (Finite 0)"
    by simp
  have none: "limit (options_of NoOptions) = None"
    by (simp add: no_filter_options_def)
  from five le have h1: "limit (options_of (Options minus_five)) = None \<or>
      (\<exists>x. limit (options_of (Options minus_five)) = Some x \<and> number_le x (Finite 0))"
    by blast
  from none have h2: "limit (options_of NoOptions) = None \<or>
      (\<exists>x. limit (options_of NoOptions) = Some x \<and> number_le x (Finite 0))"
    by blast
  show ?thesis
    using five le none
      limit_defaults_to_100 [OF h1, of controller None "[]"]
      limit_defaults_to_100 [OF h2, of controller None "[]"]
    by blast
qed

lemma check_macs_entry:
  "m \<in> set ms \<Longrightarrow> check_macs [m] \<noteq> None \<Longrightarrow> check_macs ms \<noteq> None"
  by (induction ms rule: check_macs.induct) (auto split: if_splits)

lemma check_macs_strings:
  "\<forall>m\<in>set ms. \<exists>s. m = JString s \<Longrightarrow> check_macs ms = Some e \<Longrightarrow>
   e = Error ''Invalid mac address specified''"
  by (induction ms rule: check_macs.induct) (auto split: if_splits)

lemma mac_query_invalid:
  "macs_of macs = JArray ms \<Longrightarrow> check_macs ms = Some e \<Longrightarrow>
   mac_query endpoint c macs site_arg net = \<lparr> outcome = Rejected e, client_after = c, sent = [] \<rparr>"
  by (simp add: mac_query_def)

lemma mac_query_other:
  "macs \<noteq> JUndefined \<Longrightarrow> \<forall>s. macs \<noteq> JString s \<Longrightarrow> \<forall>ms. macs \<noteq> JArray ms \<Longrightarrow>
   mac_query endpoint c macs site_arg net =
     \<lparr> outcome = Rejected (Error
         ''Filter must be a single mac address or an array of multiple mac addresses''),
       client_after = c, sent = [] \<rparr>"
  by (cases macs) (simp_all add: mac_query_def)

text \<open>
  Claim C9. When an entry of the mac-address filter fails the check of the
  loop (\<open>check_macs\<close> on that entry alone gives an error), \<^verbatim>\<open>getClients\<close> and
  \<^verbatim>\<open>getDevices\<close> reject with the error of the first failing entry and send no
  request; when all entries are strings that error is
  \<^verbatim>\<open>Invalid mac address specified\<close>. When the filter is given and is neither a
  string nor an array, both reject with the filter error and send no request.
\<close>

theorem invalid_mac_filter_rejected_before_request:
  "(macs_of macs = JArray ms \<and> (\<exists>m\<in>set ms. check_macs [m] \<noteq> None) \<longrightarrow>
      (\<exists>e. check_macs ms = Some e \<and>
           ((\<forall>m\<in>set ms. \<exists>s. m = JString s) \<longrightarrow> e = Error ''Invalid mac address specified'') \<and>
           getClients c macs site_arg net = \<lparr> outcome = Rejected e, client_after = c, sent = [] \<rparr> \<and>
           getDevices c macs site_arg net = \<lparr> outcome = Rejected e, client_after = c, sent = [] \<rparr>)) \<and>
   (macs \<noteq> JUndefined \<and> (\<forall>s. macs \<noteq> JString s) \<and> (\<forall>xs. macs \<noteq> JArray xs) \<longrightarrow>
      getClients c macs site_arg net =
        \<lparr> outcome = Rejected (Error
            ''Filter must be a single mac address or an array of multiple mac addresses''),
          client_after = c, sent = [] \<rparr> \<and>
      getDevices c macs site_arg net =
        \<lparr> outcome = Rejected (Error
            ''Filter must be a single mac address or an array of multiple mac addresses''),
          client_after = c, sent = [] \<rparr>)"
proof (intro conjI impI)
  assume h: "macs_of macs = JArray ms \<and> (\<exists>m\<in>set ms. check_macs [m] \<noteq> None)"
  then obtain e where e: "check_macs ms = Some e"
    using check_macs_entry by fastforce
  have "(\<forall>m\<in>set ms. \<exists>s. m = JString s) \<longrightarrow> e = Error ''Invalid mac address specified''"
    using e check_macs_strings by blast
  moreover have "getClients c macs site_arg net = \<lparr> outcome = Rejected e, client_after = c, sent = [] \<rparr>"
    using h e by (simp add: getClients_def mac_query_invalid)
  moreover have "getDevices c macs site_arg net = \<lparr> outcome = Rejected e, client_after = c, sent = [] \<rparr>"
    using h e by (simp add: getDevices_def mac_query_invalid)
  ultimately show "\<exists>e. check_macs ms = Some e \<and>
           ((\<forall>m\<in>set ms. \<exists>s. m = JString s) \<longrightarrow> e = Error ''Invalid mac address specified'') \<and>
           getClients c macs site_arg net = \<lparr> outcome = Rejected e, client_after = c, sent = [] \<rparr> \<and>
           getDevices c macs site_arg net = \<lparr> outcome = Rejected e, client_after = c, sent = [] \<rparr>"
    using e by blast
next
  assume h: "macs \<noteq> JUndefined \<and> (\<forall>s. macs \<noteq> JString s) \<and> (\<forall>xs. macs \<noteq> JArray xs)"
  then show "getClients c macs site_arg net =
        \<lparr> outcome = Rejected (Error
            ''Filter must be a single mac address or an array of multiple mac addresses''),
          client_after = c, sent = [] \<rparr>"
    by (simp add: getClients_def mac_query_other)
next
  assume h: "macs \<noteq> JUndefined \<and> (\<forall>s. macs \<noteq> JString s) \<and> (\<forall>xs. macs \<noteq> JArray xs)"
  then show "getDevices c macs site_arg net =
        \<lparr> outcome = Rejected (Error
            ''Filter must be a single mac address or an array of multiple mac addresses''),
          client_after = c, sent = [] \<rparr>"
    by (simp add: getDevices_def mac_query_other)
qed

theorem invalid_mac_filter_rejected_before_request_witness:
  "getClients controller (JArray [JString ''AA:BB:CC:DD:EE:FF'', JString ''ZZ:ZZ:ZZ:ZZ:ZZ:ZZ''])
     None [Response sites_ok] =
     \<lparr> outcome = Rejected (Error ''Invalid mac address specified''),
       client_after = controller, sent = [] \<rparr> \<and>
   getDevices controller (JString ''ZZ:ZZ:ZZ:ZZ:ZZ:ZZ'') None [Response sites_ok] =
     \<lparr> outcome = Rejected (Error ''Invalid mac address specified''),
       client_after = controller, sent = [] \<rparr> \<and>
   getClients controller (JNumber (Finite 5)) None [Response sites_ok] =
     \<lparr> outcome = Rejected (Error
         ''Filter must be a single mac address or an array of multiple mac addresses''),
       client_after = controller, sent = [] \<rparr>"
proof -
  let ?two = "[JString ''AA:BB:CC:DD:EE:FF'', JString ''ZZ:ZZ:ZZ:ZZ:ZZ:ZZ'']"
  let ?one = "[JString ''ZZ:ZZ:ZZ:ZZ:ZZ:ZZ'']"
  have zz: "check_macs ?one = Some (Error ''Invalid mac address specified'')"
    by (simp add: hex_digit_def eval_nat_numeral)
  have two: "check_macs ?two = Some (Error ''Invalid mac address specified'')"
    by (simp add: hex_digit_def eval_nat_numeral)
  have a: "macs_of (JArray ?two) = JArray ?two \<and> (\<exists>m\<in>set ?two. check_macs [m] \<noteq> None)"
    using zz by simp
  have b: "macs_of (JString ''ZZ:ZZ:ZZ:ZZ:ZZ:ZZ'') = JArray ?one \<and>
           (\<exists>m\<in>set ?one. check_macs [m] \<noteq> None)"
    using zz by simp
  have c: "JNumber (Finite 5) \<noteq> JUndefined \<and> (\<forall>s. JNumber (Finite 5) \<noteq> JString s) \<and>
           (\<forall>xs. JNumber (Finite 5) \<noteq> JArray xs)"
    by simp
  show ?thesis
    using a b c zz two
      invalid_mac_filter_rejected_before_request
        [of "JArray ?two" ?two controller None "[Response sites_ok]"]
      invalid_mac_filter_rejected_before_request
        [of "JString ''ZZ:ZZ:ZZ:ZZ:ZZ:ZZ''" ?one controller None "[Response sites_ok]"]
      invalid_mac_filter_rejected_before_request
        [of "JNumber (Finite 5)" "[]" controller None "[Response sites_ok]"]
    by (metis option.inject)
qed

lemma then_data_data_resolved:
  "outcome r = Resolved response \<Longrightarrow> get_prop (data response) ''data'' = Inr v \<Longrightarrow>
   outcome (then_data_data r) = Resolved (Inner v)"
  by (simp add: then_data_data_def)

lemma then_response_resolved:
  "outcome r = Resolved response \<Longrightarrow> outcome (then_response r) = Resolved (Whole response)"
  by (simp add: then_response_def)

text \<open>
  Claim C10. On every network on which the request succeeds (at once, or after
  any number of rounds of a 401 and a successful login), \<^verbatim>\<open>getSites\<close> resolves
  with the whole \<^verbatim>\<open>{ data, headers }\<close> object of the executor, while \<^verbatim>\<open>getHealth\<close>,
  \<^verbatim>\<open>getRoutes\<close>, \<^verbatim>\<open>getSystemInfo\<close>, \<^verbatim>\<open>getAlarms\<close>, \<^verbatim>\<open>getEvents\<close>, \<^verbatim>\<open>getRogueAP\<close> and
  (with a filter that passes the check) \<^verbatim>\<open>getClients\<close> and \<^verbatim>\<open>getDevices\<close> resolve
  with the \<^verbatim>\<open>data\<close> property of the response body.
\<close>

theorem getSites_resolves_with_whole_response:
  assumes "\<not> authenticationInProgress c"
    and "err_code error \<noteq> Some ''DEPTH_ZERO_SELF_SIGNED_CERT''"
    and "err_response error = Some r" and "res_status r = 401"
    and "get_prop (res_data final) ''data'' = Inr v"
  shows "outcome (getSites c (rounds n error login @ [Response final])) =
           Resolved (Whole \<lparr> data = res_data final, headers = res_headers final \<rparr>) \<and>
         outcome (getHealth c site_arg (rounds n error login @ [Response final])) =
           Resolved (Inner v) \<and>
         outcome (getRoutes c site_arg (rounds n error login @ [Response final])) =
           Resolved (Inner v) \<and>
         outcome (getSystemInfo c site_arg (rounds n error login @ [Response final])) =
           Resolved (Inner v) \<and>
         outcome (getAlarms c a site_arg (rounds n error login @ [Response final])) =
           Resolved (Inner v) \<and>
         outcome (getEvents c a site_arg (rounds n error login @ [Response final])) =
           Resolved (Inner v) \<and>
         outcome (getRogueAP c a site_arg (rounds n error login @ [Response final])) =
           Resolved (Inner v) \<and>
         (macs_of macs = JArray ms \<and> check_macs ms = None \<longrightarrow>
            outcome (getClients c macs site_arg (rounds n error login @ [Response final])) =
              Resolved (Inner v) \<and>
            outcome (getDevices c macs site_arg (rounds n error login @ [Response final])) =
              Resolved (Inner v))"
proof -
  let ?net = "rounds n error login @ [Response final]"
  have ok: "\<And>options b. outcome (api_request c options b ?net) =
      Resolved \<lparr> data = res_data final, headers = res_headers final \<rparr>"
    using assms(2-4) assms(1) by (rule rounds_outcome)
  have v: "get_prop (data \<lparr> data = res_data final, headers = res_headers final \<rparr>) ''data'' = Inr v"
    using assms(5) by simp
  have inner: "\<And>options b. outcome (then_data_data (api_request c options b ?net)) =
      Resolved (Inner v)"
    using ok v by (rule then_data_data_resolved)
  have "outcome (getSites c ?net) =
      Resolved (Whole \<lparr> data = res_data final, headers = res_headers final \<rparr>)"
    unfolding getSites_def using ok by (rule then_response_resolved)
  moreover have "outcome (getHealth c site_arg ?net) = Resolved (Inner v)"
    unfolding getHealth_def by (rule inner)
  moreover have "outcome (getRoutes c site_arg ?net) = Resolved (Inner v)"
    unfolding getRoutes_def by (rule inner)
  moreover have "outcome (getSystemInfo c site_arg ?net) = Resolved (Inner v)"
    unfolding getSystemInfo_def by (rule inner)
  moreover have "outcome (getAlarms c a site_arg ?net) = Resolved (Inner v)"
    unfolding getAlarms_def Let_def by (rule inner)
  moreover have "outcome (getEvents c a site_arg ?net) = Resolved (Inner v)"
    unfolding getEvents_def Let_def by (rule inner)
  moreover have "outcome (getRogueAP c a site_arg ?net) = Resolved (Inner v)"
    unfolding getRogueAP_def Let_def by (rule inner)
  moreover have "macs_of macs = JArray ms \<and> check_macs ms = None \<longrightarrow>
      outcome (getClients c macs site_arg ?net) = Resolved (Inner v) \<and>
      outcome (getDevices c macs site_arg ?net) = Resolved (Inner v)"
    by (simp add: getClients_def getDevices_def mac_query_def inner)
  ultimately show ?thesis by blast
qed

theorem getSites_resolves_with_whole_response_witness:
  "\<not> authenticationInProgress controller \<and>
   err_code unauthorized \<noteq> Some ''DEPTH_ZERO_SELF_SIGNED_CERT'' \<and>
   get_prop (res_data sites_ok) ''data'' = Inr (JArray [JObject [(''name'', JString ''default'')]]) \<and>
   outcome (getSites controller (rounds 1 unauthorized login_ok @ [Response sites_ok])) =
     Resolved (Whole \<lparr> data = res_data sites_ok, headers = res_headers sites_ok \<rparr>) \<and>
   outcome (getHealth controller None (rounds 1 unauthorized login_ok @ [Response sites_ok])) =
     Resolved (Inner (JArray [JObject [(''name'', JString ''default'')]])) \<and>
   macs_of (JString ''AA:BB:CC:DD:EE:FF'') = JArray [JString ''AA:BB:CC:DD:EE:FF''] \<and>
   check_macs [JString ''AA:BB:CC:DD:EE:FF''] = None \<and>
   outcome (getClients controller (JString ''AA:BB:CC:DD:EE:FF'') None
              (rounds 1 unauthorized login_ok @ [Response sites_ok])) =
     Resolved (Inner (JArray [JObject [(''name'', JString ''default'')]]))"
proof -
  have d: "\<not> authenticationInProgress controller"
    by (simp add: controller_def new_client_def)
  have a: "err_code unauthorized \<noteq> Some ''DEPTH_ZERO_SELF_SIGNED_CERT''"
    by (simp add: unauthorized_def)
  have b: "err_response unauthorized =
     Some \<lparr> res_status = 401, res_data = JObject [], res_headers = no_headers \<rparr>"
    by (simp add: unauthorized_def)
  have c: "res_status \<lparr> res_status = 401, res_data = JObject [], res_headers = no_headers \<rparr> = 401"
    by simp
  have v: "get_prop (res_data sites_ok) ''data'' =
      Inr (JArray [JObject [(''name'', JString ''default'')]])"
    by (simp add: sites_ok_def)
  have m: "macs_of (JString ''AA:BB:CC:DD:EE:FF'') = JArray [JString ''AA:BB:CC:DD:EE:FF'']"
    by simp
  have k: "check_macs [JString ''AA:BB:CC:DD:EE:FF''] = None"
    by (simp add: hex_digit_def eval_nat_numeral)
  show ?thesis
    using d a v m k
      getSites_resolves_with_whole_response
        [OF d a b c v, of 1 login_ok None NoOptions "JString ''AA:BB:CC:DD:EE:FF''"
           "[JString ''AA:BB:CC:DD:EE:FF'']"]
    by blast
qed

section \<open>Properties of the listener\<close>

text \<open>
  The executor never starts a login while the flag is set: with the flag set,
  the only request of a run is the request itself.
\<close>

lemma no_login_while_in_progress:
  "authenticationInProgress c \<Longrightarrow> sent (api_request c options b net) = [build_request c options b]"
proof (cases net)
  case Nil
  then show ?thesis by simp
next
  case (Cons r rest)
  assume "authenticationInProgress c"
  with Cons show ?thesis by (cases r) simp_all
qed

text \<open>
  \<^verbatim>\<open>startWebsocketListener\<close> tests \<^verbatim>\<open>_session\<close> only: without a session it sends a
  login and sets the flag, also when the flag is set already.
\<close>

lemma listener_start_ignores_flag:
  "\<not> session_present (session c) \<Longrightarrow>
   sent (startWebsocketListener c []) = [build_request c login_options (login_body c)] \<and>
   outcome (startWebsocketListener c []) = Pending \<and>
   client_after (startWebsocketListener c []) = c\<lparr> authenticationInProgress := True \<rparr>"
  by (simp add: startWebsocketListener_def build_request_def request_headers_def
      credential_headers_def split: option.split)

text \<open>
  Claim C2 fails on the code. Two calls of \<^verbatim>\<open>startWebsocketListener\<close> on a new
  client, the second made before the login of the first is answered: the
  first sets the flag and sends a login; the second starts from that client,
  with the flag set, and sends a second login.
\<close>

theorem second_listener_start_sends_second_login:
  "sent (startWebsocketListener controller []) =
     [build_request controller login_options (login_body controller)] \<and>
   outcome (startWebsocketListener controller []) = Pending \<and>
   authenticationInProgress (client_after (startWebsocketListener controller [])) \<and>
   sent (startWebsocketListener (client_after (startWebsocketListener controller [])) []) =
     [build_request controller login_options (login_body controller)] \<and>
   outcome (startWebsocketListener (client_after (startWebsocketListener controller [])) []) =
     Pending"
proof -
  have s: "\<not> session_present (session controller)"
    by (simp add: controller_def new_client_def)
  then have s1: "\<not> session_present (session (controller\<lparr> authenticationInProgress := True \<rparr>))"
    by simp
  have b: "build_request (controller\<lparr> authenticationInProgress := True \<rparr>) login_options
             (login_body (controller\<lparr> authenticationInProgress := True \<rparr>)) =
           build_request controller login_options (login_body controller)"
    by simp
  show ?thesis
    using listener_start_ignores_flag [OF s] listener_start_ignores_flag [OF s1]
    by (simp add: b)
qed

text \<open>The same happens when the login in flight was started by the executor: a
  first request is answered by a 401, its login is not answered yet, and the
  listener is started.\<close>

lemma listener_start_during_login_of_executor:
  "authenticationInProgress
     (client_after (api_request controller (get ''/stat/sites'') (Raw (JString []))
                      [Failure unauthorized])) \<and>
   sent (startWebsocketListener
           (client_after (api_request controller (get ''/stat/sites'') (Raw (JString []))
                            [Failure unauthorized])) []) =
     [build_request controller login_options (login_body controller)]"
  by (simp add: unauthorized_def controller_def new_client_def startWebsocketListener_def
      build_request_def request_headers_def credential_headers_def login_body_def)

text \<open>A frame that is not JSON is dropped: \<^verbatim>\<open>self.emit\<close> is not called, nothing is
  thrown and the client, with its socket, is as before.\<close>

lemma frame_not_json_is_dropped:
  "parse msg = None \<Longrightarrow>
   on_message parse emit e c msg = \<lparr> emitted = [], thrown = None, listener = c \<rparr>"
  by (simp add: on_message_def)

lemmas json_reader =
  json_parse_def skip_ws_def ws_char_def parse_number_def is_digit_def parse_unsigned_def
  parse_exponent_def parse_exponent_digits_def parse_fraction_def parse_int_part_def
  digits_val_def digit_val_def escape_char_def hex4_def hex_val_def

lemma not_json_frame_unreadable: "json_parse not_json_frame = None"
  by (simp add: not_json_frame_def json_reader)

lemma not_json_frame_is_dropped:
  "on_message json_parse emit e (open_socket controller) not_json_frame =
     \<lparr> emitted = [], thrown = None, listener = open_socket controller \<rparr>"
  using not_json_frame_unreadable by (rule frame_not_json_is_dropped)

text \<open>A frame that is a JSON object without \<^verbatim>\<open>meta\<close>: the read of
  \<^verbatim>\<open>msg.meta.message\<close> throws out of the handler.\<close>

lemma frame_without_meta_throws:
  "parse msg = Some (JObject kvs) \<Longrightarrow> map_of kvs ''meta'' = None \<Longrightarrow>
   on_message parse emit e c msg =
     \<lparr> emitted = [],
       thrown = Some (TypeError ''Cannot read properties of undefined (reading message)''),
       listener = c \<rparr>"
  by (simp add: on_message_def dispatch_def)

lemma empty_object_frame_readable: "json_parse empty_object_frame = Some (JObject [])"
  by (simp add: empty_object_frame_def json_reader)

text \<open>
  Claim C3 fails on the code for a frame that is JSON and has no \<^verbatim>\<open>meta\<close>: on
  the frame \<^verbatim>\<open>{}\<close> the handler throws a \<^verbatim>\<open>TypeError\<close> instead of dropping the
  frame, whatever the subscribers are.
\<close>

theorem empty_object_frame_throws:
  "on_message json_parse emit e (open_socket controller) empty_object_frame =
     \<lparr> emitted = [],
       thrown = Some (TypeError ''Cannot read properties of undefined (reading message)''),
       listener = open_socket controller \<rparr>"
  using empty_object_frame_readable by (rule frame_without_meta_throws) simp







lemma error_events_frame_readable:
  "json_parse error_events_frame =
     Some (JObject [(''meta'', JObject [(''message'', JString ''events'')]),
                    (''data'', JArray [JObject [(''key'', JString ''error'')],
                                       JObject [(''key'', JString ''B'')]])])"
  by (simp add: error_events_frame_def json_reader)

lemma error_sync_frame_readable:
  "json_parse error_sync_frame =
     Some (JObject [(''meta'', JObject [(''message'', JString ''error'')]),
                    (''data'', JObject [(''mac'', JString ''AA:BB:CC:DD:EE:FF'')])])"
  by (simp add: error_sync_frame_def json_reader)


text \<open>The same in the other branch: a frame whose \<^verbatim>\<open>meta.message\<close> is \<^verbatim>\<open>error\<close>.\<close>

lemma message_named_error_throws:
  "emitted (on_message json_parse node_emit no_listeners (open_socket controller)
              error_sync_frame) =
     [(JString ''error'', JObject [(''mac'', JString ''AA:BB:CC:DD:EE:FF'')])] \<and>
   thrown (on_message json_parse node_emit no_listeners (open_socket controller)
             error_sync_frame) =
     Some (UnhandledError (JObject [(''mac'', JString ''AA:BB:CC:DD:EE:FF'')]))"
  by (simp add: error_sync_frame_readable on_message_def dispatch_def node_emit_def
      no_listeners_def)

text \<open>A listener that throws ends the loop in the same way.\<close>

lemma throwing_listener_ends_the_frame:
  "emitted (on_message json_parse node_emit (\<lambda>name. [\<lambda>payload. Some (Error ''subscriber'')])
              (open_socket controller) error_events_frame) =
     [(JString ''error'', JObject [(''key'', JString ''error'')])] \<and>
   thrown (on_message json_parse node_emit (\<lambda>name. [\<lambda>payload. Some (Error ''subscriber'')])
             (open_socket controller) error_events_frame) =
     Some (Error ''subscriber'')"
  by (simp add: error_events_frame_readable on_message_def dispatch_def node_emit_def)

text \<open>An element whose \<^verbatim>\<open>key\<close> cannot be printed throws before \<^verbatim>\<open>self.emit\<close> is
  called.\<close>

lemma unprintable_key_throws:
  "emit_each emit e c [JObject [(''key'', JObject [(''toString'', JNull)])]] [] =
     \<lparr> emitted = [], thrown = Some (TypeError ''Cannot convert object to primitive value''),
       listener = c \<rparr>"
  by simp

end
